theory Spec2Isabelle
  imports Complex_Main
begin

section \<open>The ambient scheduler (src/audio-worker.js)\<close>

text \<open>
  JavaScript numbers that hold clock readings, frequencies and durations are modelled as
  reals; melody positions are integers. Sums and differences of clock readings are exact
  in \<open>processNext\<close> and what is built on it; \<open>processNext_double\<close> below is the same step
  with every sum and difference rounded to an IEEE double, as the program computes it.
  The remainder operator \<^verbatim>\<open>%\<close> of JavaScript truncates towards zero: its result has the
  sign of the dividend. (For a zero divisor JavaScript yields NaN; the model then returns
  the dividend, and the array read that follows fails in both.)
\<close>

definition js_rem :: "int \<Rightarrow> int \<Rightarrow> int" where
  "js_rem a b = sgn a * (\<bar>a\<bar> mod \<bar>b\<bar>)"

subsection \<open>IEEE doubles\<close>

text \<open>
  A JavaScript number is an IEEE 754 binary64 value. \<open>fl x\<close> is the double nearest to the
  real \<open>x\<close>: 53 significant bits, ties to the even significand, exponents down to that of
  the subnormal numbers. For doubles \<open>a\<close> and \<open>b\<close> the program's \<^verbatim>\<open>a + b\<close> is \<open>fl (a + b)\<close> and
  its \<^verbatim>\<open>a - b\<close> is \<open>fl (a - b)\<close>. (Magnitudes from \<open>2 ^ 1024\<close> on, where the program
  computes Infinity, are outside the model.)
\<close>

definition binade :: "real \<Rightarrow> int" where
  "binade x = \<lfloor>log 2 \<bar>x\<bar>\<rfloor>"

definition ulp :: "real \<Rightarrow> real" where
  "ulp x = 2 powr real_of_int (max (binade x - 52) (- 1074))"

definition round_half_even :: "real \<Rightarrow> int" where
  "round_half_even y =
     (let f = \<lfloor>y\<rfloor> in
      if y - of_int f < 1 / 2 then f
      else if 1 / 2 < y - of_int f then f + 1
      else if even f then f else f + 1)"

definition fl :: "real \<Rightarrow> real" where
  "fl x = (if x = 0 then 0 else of_int (round_half_even (x / ulp x)) * ulp x)"

subsection \<open>class AudioTask\<close>

record AudioTask =
  note_freq :: real
  duration :: real
  priority :: nat
  isRest :: bool

text \<open>\<^verbatim>\<open>new AudioTask(note, duration, priority = 1, isRest = false)\<close>; the field
  \<^verbatim>\<open>note\<close> is \<open>note_freq\<close> here.\<close>

definition newAudioTask :: "real \<Rightarrow> real \<Rightarrow> nat \<Rightarrow> bool \<Rightarrow> AudioTask" where
  "newAudioTask n d p r = \<lparr>note_freq = n, duration = d, priority = p, isRest = r\<rparr>"

subsection \<open>Messages between the page and the worker\<close>

text \<open>The object returned by \<^verbatim>\<open>getStatus()\<close>; in the older copy of the worker
  (src/unnamed/part\_002) it has a fourth field.\<close>

record status =
  st_isRunning :: bool
  st_currentIndex :: int
  st_uptime :: real

record status_part_002 = status +
  st_performanceMode :: string

text \<open>
  Messages the worker posts: \<^verbatim>\<open>{type: 'play_note', note, duration, priority, timestamp,
  currentIndex}\<close>, \<^verbatim>\<open>{type: 'sync_state', currentIndex}\<close>,
  \<^verbatim>\<open>{type: 'status_response', status}\<close> and
  \<^verbatim>\<open>{type: 'health_check', status: 'optimal', timestamp, workerStatus}\<close>; \<open>'s\<close> is the
  type of the status object.
\<close>

datatype 's worker_msg =
    play_note real real nat real int
  | sync_state int
  | status_response 's
  | health_check real 's

text \<open>\<^verbatim>\<open>e.data.currentIndex\<close>: undefined (None) on the two status messages.\<close>

fun msg_currentIndex :: "'s worker_msg \<Rightarrow> int option" where
  "msg_currentIndex (play_note n d p t i) = Some i"
| "msg_currentIndex (sync_state i) = Some i"
| "msg_currentIndex (status_response s) = None"
| "msg_currentIndex (health_check t s) = None"

text \<open>
  Messages the worker receives: \<^verbatim>\<open>{action, index}\<close>, and \<^verbatim>\<open>{action, index, mode}\<close> in
  the older copy. An action string no copy knows is \<open>other\<close>; a missing field is None.
\<close>

datatype action =
  start_action | stop_action | sync_action | set_performance_mode | get_status | check_health | other

record control_msg =
  action :: action
  index :: "int option"

record control_msg_part_002 = control_msg +
  mode :: "string option"

subsection \<open>class BackgroundScheduler and the worker's global scope\<close>

record BackgroundScheduler =
  queue :: "AudioTask list"
  isRunning :: bool
  timer :: "nat option"
  currentIndex :: int
  lastExecutionTime :: real
  melody :: "AudioTask list"

datatype error = TypeError

text \<open>
  The worker's global scope: the scheduler instance, the table of active timeouts
  (handle and delay; the callback of every one of them is \<^verbatim>\<open>() => this.processNext()\<close>),
  the next handle \<^verbatim>\<open>setTimeout\<close> will return, and the messages posted so far, in order.
  Handles are positive integers, so \<^verbatim>\<open>if (this.timer)\<close> tests for non-null.
\<close>

record ('sch, 's) worker_scope =
  SchedulerInstance :: 'sch
  timeouts :: "(nat \<times> real) list"
  nextHandle :: nat
  posted :: "'s worker_msg list"

type_synonym worker = "(BackgroundScheduler, status) worker_scope"

definition the_melody :: "AudioTask list" where
  "the_melody =
    [ newAudioTask (39200 / 100) 2000 1 False,
      newAudioTask (32963 / 100) 2000 1 False,
      newAudioTask (26163 / 100) 1500 1 False,
      newAudioTask (29366 / 100) 1500 1 False,
      newAudioTask (19600 / 100) 3000 2 False,
      newAudioTask 0 1000 1 True,
      newAudioTask (26163 / 100) 1500 1 False,
      newAudioTask (32963 / 100) 1500 1 False,
      newAudioTask (49388 / 100) 2000 2 False,
      newAudioTask (39200 / 100) 3000 1 False,
      newAudioTask 0 4000 1 True ]"

text \<open>The constructor.\<close>

definition newBackgroundScheduler :: BackgroundScheduler where
  "newBackgroundScheduler =
    \<lparr>queue = [], isRunning = False, timer = None, currentIndex = 0,
     lastExecutionTime = 0, melody = the_melody\<rparr>"

definition boot :: worker where
  "boot = \<lparr>SchedulerInstance = newBackgroundScheduler, timeouts = [], nextHandle = 1, posted = []\<rparr>"

definition postMessage :: "'s worker_msg \<Rightarrow> ('sch, 's) worker_scope \<Rightarrow> ('sch, 's) worker_scope" where
  "postMessage m w = w\<lparr>posted := posted w @ [m]\<rparr>"

definition clearTimeout :: "nat \<Rightarrow> ('sch, 's) worker_scope \<Rightarrow> ('sch, 's) worker_scope" where
  "clearTimeout h w = w\<lparr>timeouts := filter (\<lambda>p. fst p \<noteq> h) (timeouts w)\<rparr>"

definition setTimeout :: "real \<Rightarrow> ('sch, 's) worker_scope \<Rightarrow> nat \<times> ('sch, 's) worker_scope" where
  "setTimeout delay w =
     (nextHandle w, w\<lparr>timeouts := timeouts w @ [(nextHandle w, delay)], nextHandle := Suc (nextHandle w)\<rparr>)"

text \<open>
  \<^verbatim>\<open>this.melody[i]\<close>: undefined (None) unless \<open>i\<close> is an index of the array. Reading
  \<^verbatim>\<open>task.isRest\<close> of undefined throws a TypeError.
\<close>

definition melody_at :: "AudioTask list \<Rightarrow> int \<Rightarrow> AudioTask option" where
  "melody_at m i = (if 0 \<le> i \<and> i < int (length m) then Some (m ! nat i) else None)"

text \<open>The message one emission step posts for \<open>task\<close> at position \<open>i\<close>, read at clock \<open>now\<close>.\<close>

definition emission :: "AudioTask \<Rightarrow> real \<Rightarrow> int \<Rightarrow> 's worker_msg" where
  "emission task now i =
     (if \<not> isRest task then play_note (note_freq task) (duration task) (priority task) now i
      else sync_state i)"

text \<open>
  \<^verbatim>\<open>processNext()\<close>; \<open>now\<close> is what \<^verbatim>\<open>performance.now()\<close> returns in this call. An
  exception leaves the assignments made before it in place, so the result is the pair of
  the exception (if any) and the scope.
\<close>

definition processNext :: "real \<Rightarrow> worker \<Rightarrow> error option \<times> worker" where
  "processNext now w =
     (let s = SchedulerInstance w in
      if \<not> isRunning s then (None, w)
      else case melody_at (melody s) (currentIndex s) of
        None \<Rightarrow> (Some TypeError, w)
      | Some task \<Rightarrow>
          let w1 = postMessage (emission task now (currentIndex s)) w;
              i' = js_rem (currentIndex s + 1) (int (length (melody s)));
              nextDelay = (lastExecutionTime s + duration task) - now;
              stalled = nextDelay < 0;
              nextDelay' = (if stalled then 0 else nextDelay);
              last' = (if stalled then now else lastExecutionTime s + duration task);
              w2 = w1\<lparr>SchedulerInstance := s\<lparr>currentIndex := i', lastExecutionTime := last'\<rparr>\<rparr>;
              w3 = (case timer s of Some h \<Rightarrow> clearTimeout h w2 | None \<Rightarrow> w2);
              (h', w4) = setTimeout nextDelay' w3
          in (None, w4\<lparr>SchedulerInstance := (SchedulerInstance w4)\<lparr>timer := Some h'\<rparr>\<rparr>))"

text \<open>
  \<^verbatim>\<open>start(startIndex = 0)\<close>; \<open>t0\<close> is the clock reading taken in \<^verbatim>\<open>start\<close>, \<open>t1\<close> the one
  taken by the emission step it calls.
\<close>

definition start :: "int \<Rightarrow> real \<Rightarrow> real \<Rightarrow> worker \<Rightarrow> error option \<times> worker" where
  "start startIndex t0 t1 w =
     (let s = SchedulerInstance w in
      if isRunning s then (None, w)
      else processNext t1
             (w\<lparr>SchedulerInstance :=
                  s\<lparr>currentIndex := js_rem startIndex (int (length (melody s))),
                    isRunning := True,
                    lastExecutionTime := t0\<rparr>\<rparr>))"

text \<open>\<^verbatim>\<open>stop()\<close>, the same in both copies of the worker.\<close>

definition stop :: "('m BackgroundScheduler_scheme, 's) worker_scope
    \<Rightarrow> ('m BackgroundScheduler_scheme, 's) worker_scope" where
  "stop w =
     (let w1 = w\<lparr>SchedulerInstance := (SchedulerInstance w)\<lparr>isRunning := False\<rparr>\<rparr> in
      case timer (SchedulerInstance w1) of
        Some h \<Rightarrow> (let w2 = clearTimeout h w1
                   in w2\<lparr>SchedulerInstance := (SchedulerInstance w2)\<lparr>timer := None\<rparr>\<rparr>)
      | None \<Rightarrow> w1)"

definition getStatus :: "real \<Rightarrow> BackgroundScheduler \<Rightarrow> status" where
  "getStatus now s =
     \<lparr>st_isRunning = isRunning s, st_currentIndex = currentIndex s,
      st_uptime = (if isRunning s then now - lastExecutionTime s else 0)\<rparr>"

text \<open>
  \<^verbatim>\<open>self.onmessage\<close>; \<open>t0\<close> and \<open>t1\<close> are the first and the second clock reading the
  handler takes, in program order (\<^verbatim>\<open>index || 0\<close> turns a missing index into 0).
\<close>

definition onmessage :: "control_msg \<Rightarrow> real \<Rightarrow> real \<Rightarrow> worker \<Rightarrow> error option \<times> worker" where
  "onmessage e t0 t1 w =
     (case action e of
        start_action \<Rightarrow> start (case index e of None \<Rightarrow> 0 | Some i \<Rightarrow> i) t0 t1 w
      | stop_action \<Rightarrow> (None, stop w)
      | sync_action \<Rightarrow>
          (case index e of
             None \<Rightarrow> (None, w)
           | Some i \<Rightarrow>
               (None, w\<lparr>SchedulerInstance := (SchedulerInstance w)
                          \<lparr>currentIndex := js_rem i (int (length (melody (SchedulerInstance w))))\<rparr>\<rparr>))
      | get_status \<Rightarrow> (None, postMessage (status_response (getStatus t0 (SchedulerInstance w))) w)
      | check_health \<Rightarrow> (None, postMessage (health_check t0 (getStatus t1 (SchedulerInstance w))) w)
      | set_performance_mode \<Rightarrow> (None, w)
      | other \<Rightarrow> (None, w))"

subsection \<open>The event loop of the worker\<close>

text \<open>
  What can happen to the worker: a control message arrives, or an active timeout fires.
  A timeout that fires leaves the table and then runs its callback; a handle that is not
  active cannot fire. An uncaught exception ends the handler and is reported, the scope
  lives on.
\<close>

datatype event = Message control_msg real real | Fire nat real

definition fire :: "nat \<Rightarrow> real \<Rightarrow> worker \<Rightarrow> error option \<times> worker" where
  "fire h now w =
     (if h \<in> fst ` set (timeouts w) then processNext now (clearTimeout h w) else (None, w))"

fun handle :: "event \<Rightarrow> worker \<Rightarrow> error option \<times> worker" where
  "handle (Message e t0 t1) w = onmessage e t0 t1 w"
| "handle (Fire h now) w = fire h now w"

fun run :: "event list \<Rightarrow> worker \<Rightarrow> worker" where
  "run [] w = w"
| "run (ev # evs) w = run evs (snd (handle ev w))"

subsection \<open>Runs of emission steps\<close>

text \<open>
  \<^verbatim>\<open>processNext()\<close> once more, with the arithmetic of the program: the two sums
  \<^verbatim>\<open>this.lastExecutionTime + task.duration\<close> (for \<^verbatim>\<open>nextDelay\<close> and for \<^verbatim>\<open>+=\<close>) and the
  difference with \<^verbatim>\<open>now\<close> are rounded to doubles. Everything else is as in \<open>processNext\<close>.
\<close>

definition processNext_double :: "real \<Rightarrow> worker \<Rightarrow> error option \<times> worker" where
  "processNext_double now w =
     (let s = SchedulerInstance w in
      if \<not> isRunning s then (None, w)
      else case melody_at (melody s) (currentIndex s) of
        None \<Rightarrow> (Some TypeError, w)
      | Some task \<Rightarrow>
          let w1 = postMessage (emission task now (currentIndex s)) w;
              i' = js_rem (currentIndex s + 1) (int (length (melody s)));
              nextDelay = fl (fl (lastExecutionTime s + duration task) - now);
              stalled = nextDelay < 0;
              nextDelay' = (if stalled then 0 else nextDelay);
              last' = (if stalled then now else fl (lastExecutionTime s + duration task));
              w2 = w1\<lparr>SchedulerInstance := s\<lparr>currentIndex := i', lastExecutionTime := last'\<rparr>\<rparr>;
              w3 = (case timer s of Some h \<Rightarrow> clearTimeout h w2 | None \<Rightarrow> w2);
              (h', w4) = setTimeout nextDelay' w3
          in (None, w4\<lparr>SchedulerInstance := (SchedulerInstance w4)\<lparr>timer := Some h'\<rparr>\<rparr>))"

text \<open>
  \<open>emission_steps nows w\<close> runs one such emission step per clock reading in \<open>nows\<close>.
  \<open>never_stalled nows w\<close> says that in each of these steps the delay the step computes,
  \<^verbatim>\<open>(this.lastExecutionTime + task.duration) - now\<close>, is not negative (the source's
  \<^verbatim>\<open>nextDelay < 0\<close> branch is not taken). \<open>nominal_durations m i n\<close> lists the durations of
  the \<open>n\<close> tasks of the circular melody \<open>m\<close> from position \<open>i\<close> on. \<open>no_rounding t ds\<close> says
  that adding the durations \<open>ds\<close> to \<open>t\<close> one after the other never rounds: every sum is a
  double.
\<close>

fun emission_steps :: "real list \<Rightarrow> worker \<Rightarrow> worker" where
  "emission_steps [] w = w"
| "emission_steps (now # nows) w = emission_steps nows (snd (processNext_double now w))"

fun never_stalled :: "real list \<Rightarrow> worker \<Rightarrow> bool" where
  "never_stalled [] w = True"
| "never_stalled (now # nows) w =
     (case melody_at (melody (SchedulerInstance w)) (currentIndex (SchedulerInstance w)) of
        None \<Rightarrow> False
      | Some task \<Rightarrow>
          \<not> (fl (fl (lastExecutionTime (SchedulerInstance w) + duration task) - now) < 0)
          \<and> never_stalled nows (snd (processNext_double now w)))"

fun no_rounding :: "real \<Rightarrow> real list \<Rightarrow> bool" where
  "no_rounding t [] = True"
| "no_rounding t (d # ds) = (fl (t + d) = t + d \<and> no_rounding (t + d) ds)"

definition nominal_durations :: "AudioTask list \<Rightarrow> int \<Rightarrow> nat \<Rightarrow> real list" where
  "nominal_durations m i n = map (\<lambda>k. duration (m ! nat ((i + int k) mod int (length m)))) [0..<n]"

text \<open>
  The timeout table holds nothing, or exactly the timeout whose handle the scheduler
  keeps in \<^verbatim>\<open>this.timer\<close>.
\<close>

definition single_slot :: "('m BackgroundScheduler_scheme, 's) worker_scope \<Rightarrow> bool" where
  "single_slot w =
     (case timeouts w of
        [] \<Rightarrow> True
      | [p] \<Rightarrow> timer (SchedulerInstance w) = Some (fst p)
      | _ \<Rightarrow> False)"

text \<open>The two-entry melody of the specification's scenario, in a freshly loaded worker.\<close>

definition scenario_melody :: "AudioTask list" where
  "scenario_melody = [newAudioTask 440 1000 1 False, newAudioTask 0 500 1 True]"

definition scenario_boot :: worker where
  "scenario_boot = boot\<lparr>SchedulerInstance := newBackgroundScheduler\<lparr>melody := scenario_melody\<rparr>\<rparr>"

section \<open>The older copy of the scheduler (src/unnamed/part\_002)\<close>

text \<open>
  The first file of src/unnamed/part\_002 is an older copy of the worker. Its scheduler has
  one more field, \<^verbatim>\<open>performanceMode\<close>, another melody, and an emission step without drift
  correction: the step waits the task's duration plus a random jitter, does not clear the
  previous timeout, and sets \<^verbatim>\<open>lastExecutionTime\<close> to the clock reading of the step.
  \<^verbatim>\<open>start\<close>, \<^verbatim>\<open>stop\<close> and the \<^verbatim>\<open>sync\<close> message are as in src/audio-worker.js.
\<close>

record BackgroundScheduler_part_002 = BackgroundScheduler +
  performanceMode :: string

type_synonym worker_part_002 = "(BackgroundScheduler_part_002, status_part_002) worker_scope"

definition melody_part_002 :: "AudioTask list" where
  "melody_part_002 =
    [ newAudioTask 329.63 1400 1 False,
      newAudioTask 392.00 1400 2 False,
      newAudioTask 493.88 1400 1 False,
      newAudioTask 523.25 2800 2 False,
      newAudioTask 0 600 1 True,
      newAudioTask 440.00 1400 1 False,
      newAudioTask 392.00 1400 1 False,
      newAudioTask 329.63 1400 1 False,
      newAudioTask 0 3500 1 True ]"

definition newBackgroundScheduler_part_002 :: BackgroundScheduler_part_002 where
  "newBackgroundScheduler_part_002 =
    \<lparr>queue = [], isRunning = False, timer = None, currentIndex = 0,
     lastExecutionTime = 0, melody = melody_part_002, performanceMode = ''balanced''\<rparr>"

definition boot_part_002 :: worker_part_002 where
  "boot_part_002 =
     \<lparr>SchedulerInstance = newBackgroundScheduler_part_002, timeouts = [], nextHandle = 1,
      posted = []\<rparr>"

text \<open>\<^verbatim>\<open>processNext()\<close>; \<open>random\<close> is what \<^verbatim>\<open>Math.random()\<close> returns.\<close>

definition processNext_part_002 ::
    "real \<Rightarrow> real \<Rightarrow> worker_part_002 \<Rightarrow> error option \<times> worker_part_002" where
  "processNext_part_002 now random w =
     (let s = SchedulerInstance w in
      if \<not> isRunning s then (None, w)
      else case melody_at (melody s) (currentIndex s) of
        None \<Rightarrow> (Some TypeError, w)
      | Some task \<Rightarrow>
          let w1 = postMessage (emission task now (currentIndex s)) w;
              i' = js_rem (currentIndex s + 1) (int (length (melody s)));
              jitter = (if performanceMode s = ''performance'' then 0 else random * 30);
              nextDelay = duration task + jitter;
              w2 = w1\<lparr>SchedulerInstance := s\<lparr>currentIndex := i'\<rparr>\<rparr>;
              (h', w3) = setTimeout nextDelay w2
          in (None, w3\<lparr>SchedulerInstance :=
                         (SchedulerInstance w3)\<lparr>timer := Some h', lastExecutionTime := now\<rparr>\<rparr>))"

definition start_part_002 ::
    "int \<Rightarrow> real \<Rightarrow> real \<Rightarrow> real \<Rightarrow> worker_part_002 \<Rightarrow> error option \<times> worker_part_002" where
  "start_part_002 startIndex t0 t1 random w =
     (let s = SchedulerInstance w in
      if isRunning s then (None, w)
      else processNext_part_002 t1 random
             (w\<lparr>SchedulerInstance :=
                  s\<lparr>currentIndex := js_rem startIndex (int (length (melody s))),
                    isRunning := True,
                    lastExecutionTime := t0\<rparr>\<rparr>))"

definition setPerformanceMode :: "string \<Rightarrow> worker_part_002 \<Rightarrow> worker_part_002" where
  "setPerformanceMode m w = w\<lparr>SchedulerInstance := (SchedulerInstance w)\<lparr>performanceMode := m\<rparr>\<rparr>"

definition getStatus_part_002 :: "real \<Rightarrow> BackgroundScheduler_part_002 \<Rightarrow> status_part_002" where
  "getStatus_part_002 now s =
     \<lparr>st_isRunning = isRunning s, st_currentIndex = currentIndex s,
      st_uptime = (if isRunning s then now - lastExecutionTime s else 0),
      st_performanceMode = performanceMode s\<rparr>"

text \<open>\<^verbatim>\<open>self.onmessage\<close>; \<^verbatim>\<open>mode || 'balanced'\<close> replaces a missing or empty mode.\<close>

definition onmessage_part_002 ::
    "control_msg_part_002 \<Rightarrow> real \<Rightarrow> real \<Rightarrow> real \<Rightarrow> worker_part_002
      \<Rightarrow> error option \<times> worker_part_002" where
  "onmessage_part_002 e t0 t1 random w =
     (case action e of
        start_action \<Rightarrow> start_part_002 (case index e of None \<Rightarrow> 0 | Some i \<Rightarrow> i) t0 t1 random w
      | stop_action \<Rightarrow> (None, stop w)
      | sync_action \<Rightarrow>
          (case index e of
             None \<Rightarrow> (None, w)
           | Some i \<Rightarrow>
               (None, w\<lparr>SchedulerInstance := (SchedulerInstance w)
                          \<lparr>currentIndex := js_rem i (int (length (melody (SchedulerInstance w))))\<rparr>\<rparr>))
      | set_performance_mode \<Rightarrow>
          (None, setPerformanceMode
                   (case mode e of None \<Rightarrow> ''balanced''
                    | Some m \<Rightarrow> if m = [] then ''balanced'' else m) w)
      | get_status \<Rightarrow>
          (None, postMessage (status_response (getStatus_part_002 t0 (SchedulerInstance w))) w)
      | check_health \<Rightarrow>
          (None, postMessage (health_check t0 (getStatus_part_002 t1 (SchedulerInstance w))) w)
      | other \<Rightarrow> (None, w))"

text \<open>The event loop of the older worker; every event brings its clock readings and the
  value a call of \<^verbatim>\<open>Math.random()\<close> returns.\<close>

datatype event_part_002 =
    Message_part_002 control_msg_part_002 real real real
  | Fire_part_002 nat real real

definition fire_part_002 ::
    "nat \<Rightarrow> real \<Rightarrow> real \<Rightarrow> worker_part_002 \<Rightarrow> error option \<times> worker_part_002" where
  "fire_part_002 h now random w =
     (if h \<in> fst ` set (timeouts w) then processNext_part_002 now random (clearTimeout h w)
      else (None, w))"

fun handle_part_002 :: "event_part_002 \<Rightarrow> worker_part_002 \<Rightarrow> error option \<times> worker_part_002" where
  "handle_part_002 (Message_part_002 e t0 t1 random) w = onmessage_part_002 e t0 t1 random w"
| "handle_part_002 (Fire_part_002 h now random) w = fire_part_002 h now random w"

fun run_part_002 :: "event_part_002 list \<Rightarrow> worker_part_002 \<Rightarrow> worker_part_002" where
  "run_part_002 [] w = w"
| "run_part_002 (ev # evs) w = run_part_002 evs (snd (handle_part_002 ev w))"


section \<open>The sound system of the page (src/sound.js)\<close>

subsection \<open>The audio graph\<close>

text \<open>
  An oscillator that has been created, wired and started is a \<open>voice\<close>: its waveform and
  frequency, the time passed to \<^verbatim>\<open>start\<close> (0 for \<^verbatim>\<open>start()\<close>), the time passed to \<^verbatim>\<open>stop\<close>
  (None when \<^verbatim>\<open>stop\<close> was never called on it), the peak of the gain in front of it, and
  where its signal ends up. A gain node is its \<^verbatim>\<open>gain.value\<close> and the automation calls made
  on \<^verbatim>\<open>gain\<close>, in order.
\<close>

datatype wave = sine | square | triangle | sawtooth

datatype bus = master_bus | ambient_bus | frequency_param

record voice =
  v_wave :: wave
  v_frequency :: real
  v_start :: real
  v_stop :: "real option"
  v_peak :: real
  v_dest :: bus

datatype automation =
    cancelScheduledValues real
  | setValueAtTime real real
  | linearRampToValueAtTime real real

record GainNode =
  gain_value :: real
  gain_events :: "automation list"

record AudioContext =
  suspended :: bool
  currentTime :: real
  voices :: "voice list"
  resume_calls :: nat

text \<open>A worker as the page sees it: the control messages posted to it, and whether
  \<^verbatim>\<open>terminate()\<close> was called.\<close>

record Worker =
  inbox :: "control_msg list"
  terminated :: bool

datatype worker_support = no_Worker | Worker_throws | Worker_ok

datatype js_options = opts_undefined | opts_null | opts_object "real option"

text \<open>
  The state of the page. First the variables of the \<^verbatim>\<open>SoundSystem\<close> closure
  (\<^verbatim>\<open>audioWorker\<close> is the position of the worker object in \<open>workers\<close>), then the browser
  around it: whether an \<^verbatim>\<open>AudioContext\<close> constructor exists and works, the state a new
  context starts in, \<^verbatim>\<open>window.Worker\<close>, the worker objects created so far, the tab's
  \<^verbatim>\<open>sessionStorage\<close> (the stored decimal strings are kept as the integers they denote),
  the active intervals (handle and period) and the console.
\<close>

record page =
  audioCtx :: "AudioContext option"
  masterGain :: "GainNode option"
  ambientGain :: "GainNode option"
  ambientStarted :: bool
  ambientTimer :: "nat option"
  audioWorker :: "nat option"
  AudioContext_ctor :: bool
  new_ctx_suspended :: bool
  Worker_ctor :: worker_support
  workers :: "Worker list"
  sessionStorage :: "string \<Rightarrow> int option"
  intervals :: "(nat \<times> real) list"
  nextInterval :: nat
  console :: "string list"

definition SAFE_MIN_VOLUME :: real where
  "SAFE_MIN_VOLUME = 0.0001"

text \<open>
  \<^verbatim>\<open>initContext\<close>: \<^verbatim>\<open>new (window.AudioContext || window.webkitAudioContext)()\<close> throws
  when there is no such constructor. \<^verbatim>\<open>audioCtx.resume()\<close> returns a promise: the call is
  recorded, and \<^verbatim>\<open>audioCtx.state\<close> is what it was when the function returns. Whether and
  when the browser then lets the context run is not part of the code.
\<close>

definition resume_if_suspended :: "page \<Rightarrow> page" where
  "resume_if_suspended p =
     (case audioCtx p of
        None \<Rightarrow> p
      | Some ctx \<Rightarrow>
          if suspended ctx then p\<lparr>audioCtx := Some (ctx\<lparr>resume_calls := Suc (resume_calls ctx)\<rparr>)\<rparr>
          else p)"

definition initContext :: "page \<Rightarrow> error option \<times> page" where
  "initContext p =
     (case audioCtx p of
        None \<Rightarrow>
          if \<not> AudioContext_ctor p then (Some TypeError, p)
          else (None, resume_if_suspended
                 (p\<lparr>audioCtx := Some \<lparr>suspended = new_ctx_suspended p, currentTime = 0,
                                       voices = [], resume_calls = 0\<rparr>,
                    masterGain := Some \<lparr>gain_value = 0.35, gain_events = []\<rparr>,
                    ambientGain := Some \<lparr>gain_value = 0.0, gain_events = []\<rparr>\<rparr>))
      | Some ctx \<Rightarrow> (None, resume_if_suspended p))"

definition clamp :: "real \<Rightarrow> real \<Rightarrow> real \<Rightarrow> real" where
  "clamp num lo hi = max lo (min hi num)"

text \<open>A destination argument: the bus, when the gain variable naming it is not null.\<close>

definition bus_of :: "GainNode option \<Rightarrow> bus \<Rightarrow> bus option" where
  "bus_of g b = (case g of None \<Rightarrow> None | Some n \<Rightarrow> Some b)"

definition add_voice :: "voice \<Rightarrow> AudioContext \<Rightarrow> AudioContext" where
  "add_voice v ctx = ctx\<lparr>voices := voices ctx @ [v]\<rparr>"

text \<open>\<^verbatim>\<open>createTone(frequency, type, startTime, duration, volume, destination)\<close>\<close>

definition createTone :: "real \<Rightarrow> wave \<Rightarrow> real \<Rightarrow> real \<Rightarrow> real \<Rightarrow> bus option \<Rightarrow> page \<Rightarrow> page" where
  "createTone frequency ty startTime dur volume destination p =
     (case audioCtx p of
        None \<Rightarrow> p
      | Some ctx \<Rightarrow>
          (case destination of
             None \<Rightarrow> p
           | Some dest \<Rightarrow>
               if dur \<le> 0 then p
               else p\<lparr>audioCtx := Some (add_voice
                        \<lparr>v_wave = ty, v_frequency = frequency, v_start = startTime,
                         v_stop = Some (startTime + dur),
                         v_peak = clamp volume SAFE_MIN_VOLUME 1.0, v_dest = dest\<rparr> ctx)\<rparr>))"

text \<open>\<^verbatim>\<open>createNote(frequency, startTime, duration, volume, destination)\<close>\<close>

definition createNote :: "real \<Rightarrow> real \<Rightarrow> real \<Rightarrow> real \<Rightarrow> bus option \<Rightarrow> page \<Rightarrow> page" where
  "createNote frequency startTime dur volume destination p =
     (case audioCtx p of
        None \<Rightarrow> p
      | Some ctx \<Rightarrow>
          (case destination of
             None \<Rightarrow> p
           | Some dest \<Rightarrow>
               p\<lparr>audioCtx := Some (add_voice
                    \<lparr>v_wave = triangle, v_frequency = frequency, v_start = startTime,
                     v_stop = Some (startTime + dur + 0.02),
                     v_peak = clamp volume SAFE_MIN_VOLUME 1, v_dest = dest\<rparr> ctx)\<rparr>))"

subsection \<open>The handler of the worker's events\<close>

text \<open>
  The oscillators the handler of src/sound.js creates for a \<^verbatim>\<open>play_note\<close> event, starting
  at \<open>t\<close>: the sine at the note's frequency, routed to the ambient bus, and the vibrato
  oscillator that modulates its frequency. \<^verbatim>\<open>e.data.priority || 1\<close> replaces 0 by 1.
\<close>

definition ambient_note_voices :: "real \<Rightarrow> real \<Rightarrow> nat \<Rightarrow> real \<Rightarrow> voice list" where
  "ambient_note_voices n d pr t =
     (let dur = d / 1000;
          priority = (if pr = 0 then 1 else pr);
          maxVol = (if priority = 2 then 0.18 else 0.12)
      in [\<lparr>v_wave = sine, v_frequency = n, v_start = t, v_stop = Some (t + dur + 0.1),
           v_peak = maxVol, v_dest = ambient_bus\<rparr>,
          \<lparr>v_wave = sine, v_frequency = (if priority = 2 then 6 else 4), v_start = t,
           v_stop = Some (t + dur + 0.1), v_peak = (if priority = 2 then 5 else 3),
           v_dest = frequency_param\<rparr>])"

text \<open>
  \<^verbatim>\<open>audioWorker.onmessage\<close> as \<^verbatim>\<open>startAmbient\<close> of src/sound.js installs it; \<open>now\<close> is the
  page's \<^verbatim>\<open>performance.now()\<close>. A number is truthy when it is not 0, so
  \<^verbatim>\<open>e.data.timestamp && ...\<close> tests \<open>ts \<noteq> 0\<close>. Connecting a node to null throws. The
  handler does not look into the status object of the two status messages.
\<close>

definition audioWorker_onmessage :: "status worker_msg \<Rightarrow> real \<Rightarrow> page \<Rightarrow> error option \<times> page" where
  "audioWorker_onmessage e now p =
     (let p1 = (case msg_currentIndex e of
                  None \<Rightarrow> p
                | Some i \<Rightarrow> p\<lparr>sessionStorage := (sessionStorage p)(''ambient_melody_index'' \<mapsto> i)\<rparr>)
      in case e of
           play_note n d pr ts i \<Rightarrow>
             (case audioCtx p1 of
                None \<Rightarrow> (None, p1)
              | Some ctx \<Rightarrow>
                  if ts \<noteq> 0 \<and> now - ts > 150
                  then (None, p1\<lparr>console := console p1 @
                          [''Dropping stale background note to maintain website smoothness'']\<rparr>)
                  else
                    (case ambientGain p1 of
                       None \<Rightarrow> (Some TypeError, p1)
                     | Some g \<Rightarrow>
                         (None, p1\<lparr>audioCtx := Some
                            (ctx\<lparr>voices := voices ctx
                                   @ ambient_note_voices n d pr (currentTime ctx + 0.05)\<rparr>)\<rparr>)))
         | sync_state i \<Rightarrow> (None, p1)
         | status_response st \<Rightarrow> (None, p1)
         | health_check t st \<Rightarrow> (None, p1))"

text \<open>
  The same handler in the other copy of the file (src/unnamed/part\_001): the staleness
  check is commented out, and a note is two layers, a sine and a quieter triangle (the
  random detune of the second layer is not part of a \<open>voice\<close>).
\<close>

definition ambient_note_voices_part_001 :: "real \<Rightarrow> real \<Rightarrow> nat \<Rightarrow> real \<Rightarrow> voice list" where
  "ambient_note_voices_part_001 n d pr t =
     (let dur = d / 1000;
          priority = (if pr = 0 then 1 else pr);
          maxVol = (if priority = 2 then 0.08 else 0.05)
      in [\<lparr>v_wave = sine, v_frequency = n, v_start = t, v_stop = Some (t + dur + 2.0),
           v_peak = maxVol, v_dest = ambient_bus\<rparr>,
          \<lparr>v_wave = triangle, v_frequency = n, v_start = t, v_stop = Some (t + dur + 2.0),
           v_peak = maxVol * 0.3, v_dest = ambient_bus\<rparr>])"

definition audioWorker_onmessage_part_001 :: "status worker_msg \<Rightarrow> page \<Rightarrow> error option \<times> page" where
  "audioWorker_onmessage_part_001 e p =
     (let p1 = (case msg_currentIndex e of
                  None \<Rightarrow> p
                | Some i \<Rightarrow> p\<lparr>sessionStorage := (sessionStorage p)(''ambient_melody_index'' \<mapsto> i)\<rparr>)
      in case e of
           play_note n d pr ts i \<Rightarrow>
             (case audioCtx p1 of
                None \<Rightarrow> (None, p1)
              | Some ctx \<Rightarrow>
                  (case ambientGain p1 of
                     None \<Rightarrow> (Some TypeError, p1)
                   | Some g \<Rightarrow>
                       (None, p1\<lparr>audioCtx := Some
                          (ctx\<lparr>voices := voices ctx
                                 @ ambient_note_voices_part_001 n d pr (currentTime ctx + 0.05)\<rparr>)\<rparr>)))
         | sync_state i \<Rightarrow> (None, p1)
         | status_response st \<Rightarrow> (None, p1)
         | health_check t st \<Rightarrow> (None, p1))"

subsection \<open>Starting and stopping the ambient layer\<close>

definition setupLegacyInterval :: "page \<Rightarrow> page" where
  "setupLegacyInterval p =
     p\<lparr>intervals := intervals p @ [(nextInterval p, 1300)],
       nextInterval := Suc (nextInterval p),
       ambientTimer := Some (nextInterval p)\<rparr>"

text \<open>
  The two drone oscillators of \<^verbatim>\<open>startAmbient\<close>, behind a shared gain of 0.12 and a
  lowpass filter into the ambient bus. They are started with \<^verbatim>\<open>start()\<close>; the code calls
  \<^verbatim>\<open>stop\<close> on neither.
\<close>

definition drone1 :: voice where
  "drone1 = \<lparr>v_wave = triangle, v_frequency = 65.41, v_start = 0, v_stop = None,
             v_peak = 0.12, v_dest = ambient_bus\<rparr>"

definition drone2 :: voice where
  "drone2 = \<lparr>v_wave = sine, v_frequency = 98.0, v_start = 0, v_stop = None,
             v_peak = 0.12, v_dest = ambient_bus\<rparr>"

text \<open>
  \<^verbatim>\<open>startAmbient\<close>; \<^verbatim>\<open>parseInt(sessionStorage.getItem(..) || '0')\<close> is the stored index,
  or 0.
\<close>

definition startAmbient :: "page \<Rightarrow> error option \<times> page" where
  "startAmbient p =
     (case initContext p of
        (Some err, p1) \<Rightarrow> (Some err, p1)
      | (None, p1) \<Rightarrow>
          (case audioCtx p1 of
             None \<Rightarrow> (None, p1)
           | Some ctx \<Rightarrow>
               (case ambientGain p1 of
                  None \<Rightarrow> (None, p1)
                | Some g \<Rightarrow>
                    if ambientStarted p1 then (None, p1)
                    else
                      let now = currentTime ctx;
                          g' = g\<lparr>gain_events := gain_events g @
                                  [cancelScheduledValues now, setValueAtTime 0.0 now,
                                   linearRampToValueAtTime 0.65 (now + 0.5)]\<rparr>;
                          p2 = p1\<lparr>ambientStarted := True, ambientGain := Some g',
                                 audioCtx := Some (add_voice drone2 (add_voice drone1 ctx))\<rparr>
                      in (None,
                          (case Worker_ctor p2 of
                             no_Worker \<Rightarrow> setupLegacyInterval p2
                           | Worker_throws \<Rightarrow>
                               setupLegacyInterval
                                 (p2\<lparr>console := console p2 @ [''Worker failed, fallback to interval'']\<rparr>)
                           | Worker_ok \<Rightarrow>
                               let savedIndex =
                                     (case sessionStorage p2 ''ambient_melody_index'' of
                                        None \<Rightarrow> 0 | Some i \<Rightarrow> i)
                               in p2\<lparr>workers := workers p2 @
                                       [\<lparr>inbox = [\<lparr>action = start_action, index = Some savedIndex\<rparr>],
                                         terminated = False\<rparr>],
                                     audioWorker := Some (length (workers p2))\<rparr>)))))"

definition stopAmbient :: "page \<Rightarrow> page" where
  "stopAmbient p =
     (let p1 = (case audioWorker p of
                  Some k \<Rightarrow>
                    p\<lparr>workers := (workers p)
                         [k := \<lparr>inbox = inbox (workers p ! k) @ [\<lparr>action = stop_action, index = None\<rparr>],
                                terminated = True\<rparr>],
                      audioWorker := None\<rparr>
                | None \<Rightarrow> p);
          p2 = (case ambientTimer p1 of
                  Some h \<Rightarrow> p1\<lparr>intervals := filter (\<lambda>q. fst q \<noteq> h) (intervals p1),
                               ambientTimer := None\<rparr>
                | None \<Rightarrow> p1);
          p3 = (case audioCtx p2 of
                  None \<Rightarrow> p2
                | Some ctx \<Rightarrow>
                    (case ambientGain p2 of
                       None \<Rightarrow> p2
                     | Some g \<Rightarrow>
                         p2\<lparr>ambientGain := Some
                              (g\<lparr>gain_events := gain_events g @
                                   [cancelScheduledValues (currentTime ctx),
                                    setValueAtTime (gain_value g) (currentTime ctx),
                                    linearRampToValueAtTime 0.0 (currentTime ctx + 0.5)]\<rparr>)\<rparr>))
      in p3\<lparr>ambientStarted := False\<rparr>)"

text \<open>Start/stop cycles, the oscillators of the page, and those of them on which no stop
  is scheduled.\<close>

fun ambient_cycles :: "nat \<Rightarrow> page \<Rightarrow> page" where
  "ambient_cycles 0 p = p"
| "ambient_cycles (Suc n) p = ambient_cycles n (stopAmbient (snd (startAmbient p)))"

definition page_voices :: "page \<Rightarrow> voice list" where
  "page_voices p = (case audioCtx p of None \<Rightarrow> [] | Some ctx \<Rightarrow> voices ctx)"

definition unstopped :: "page \<Rightarrow> voice list" where
  "unstopped p = filter (\<lambda>v. v_stop v = None) (page_voices p)"

text \<open>
  \<^verbatim>\<open>startAmbient\<close> gets past its guard: the ambient layer is not marked as started, and
  the audio graph exists or can be built.
\<close>

definition can_start :: "page \<Rightarrow> bool" where
  "can_start p =
     (\<not> ambientStarted p \<and>
      (case audioCtx p of None \<Rightarrow> AudioContext_ctor p | Some ctx \<Rightarrow> ambientGain p \<noteq> None))"

subsection \<open>Discrete sounds\<close>

text \<open>
  The parameter pattern \<^verbatim>\<open>({ intensity = 1 } = {})\<close>: destructuring null throws.
\<close>

definition intensity_of :: "js_options \<Rightarrow> error + real" where
  "intensity_of options =
     (case options of
        opts_undefined \<Rightarrow> Inr 1
      | opts_null \<Rightarrow> Inl TypeError
      | opts_object None \<Rightarrow> Inr 1
      | opts_object (Some x) \<Rightarrow> Inr x)"

text \<open>
  What every entry of \<^verbatim>\<open>sounds\<close> begins with: \<^verbatim>\<open>initContext(); if (!audioCtx) return;
  const now = audioCtx.currentTime;\<close> followed by the entry's body.
\<close>

definition with_now :: "(real \<Rightarrow> page \<Rightarrow> page) \<Rightarrow> page \<Rightarrow> error option \<times> page" where
  "with_now body p =
     (case initContext p of
        (Some err, p1) \<Rightarrow> (Some err, p1)
      | (None, p1) \<Rightarrow>
          (case audioCtx p1 of
             None \<Rightarrow> (None, p1)
           | Some ctx \<Rightarrow> (None, body (currentTime ctx) p1)))"

text \<open>The default \<^verbatim>\<open>destination = masterGain\<close>, read when the call is made.\<close>

definition master_tone :: "real \<Rightarrow> wave \<Rightarrow> real \<Rightarrow> real \<Rightarrow> real \<Rightarrow> page \<Rightarrow> page" where
  "master_tone frequency ty startTime dur volume p =
     createTone frequency ty startTime dur volume (bus_of (masterGain p) master_bus) p"

definition master_note :: "real \<Rightarrow> real \<Rightarrow> real \<Rightarrow> real \<Rightarrow> page \<Rightarrow> page" where
  "master_note frequency startTime dur volume p =
     createNote frequency startTime dur volume (bus_of (masterGain p) master_bus) p"

definition sounds_click :: "js_options \<Rightarrow> page \<Rightarrow> error option \<times> page" where
  "sounds_click options p =
     (case intensity_of options of
        Inl err \<Rightarrow> (Some err, p)
      | Inr intensity \<Rightarrow>
          with_now (\<lambda>now q.
            let vol = clamp (0.04 + (intensity * 0.06)) 0.04 0.12
            in master_tone 220.0 triangle (now + 0.01) 0.08 (vol * 0.8)
                 (master_tone 293.66 square now 0.06 vol q)) p)"

definition sounds_hover :: "js_options \<Rightarrow> page \<Rightarrow> error option \<times> page" where
  "sounds_hover options p =
     (case intensity_of options of
        Inl err \<Rightarrow> (Some err, p)
      | Inr intensity \<Rightarrow>
          with_now (\<lambda>now q.
            let vol = clamp (0.015 + (intensity * 0.025)) 0.012 0.05
            in master_tone 659.25 triangle now 0.045 vol q) p)"

definition sounds_success :: "js_options \<Rightarrow> page \<Rightarrow> error option \<times> page" where
  "sounds_success options p =
     with_now (\<lambda>now q.
       master_note 587.33 (now + 0.24) 0.3 0.08
         (master_note 493.88 (now + 0.12) 0.14 0.07
           (master_note 392.0 now 0.14 0.07 q))) p"

definition sounds_error :: "js_options \<Rightarrow> page \<Rightarrow> error option \<times> page" where
  "sounds_error options p =
     with_now (\<lambda>now q.
       master_tone 155.56 sawtooth (now + 0.1) 0.2 0.07
         (master_tone 185.0 sawtooth now 0.12 0.08 q)) p"

definition sounds_hurt :: "js_options \<Rightarrow> page \<Rightarrow> error option \<times> page" where
  "sounds_hurt options p =
     with_now (\<lambda>now q.
       master_tone 130.81 sawtooth (now + 0.05) 0.2 0.07
         (master_tone 164.81 sawtooth now 0.16 0.08 q)) p"

definition sounds_scan :: "js_options \<Rightarrow> page \<Rightarrow> error option \<times> page" where
  "sounds_scan options p =
     with_now (\<lambda>now q.
       master_tone 987.77 sine (now + 0.05) 0.09 0.04
         (master_tone 783.99 sine now 0.06 0.05 q)) p"

definition sounds_level_up :: "js_options \<Rightarrow> page \<Rightarrow> error option \<times> page" where
  "sounds_level_up options p =
     with_now (\<lambda>now q.
       foldl (\<lambda>q' fi. master_note (fst fi) (now + (real (snd fi) * 0.12)) 0.35 0.09 q') q
         (zip [329.63, 392.0, 493.88, 659.25] [0 ..< 4])) p"

text \<open>
  \<^verbatim>\<open>sounds[type]\<close> also finds the functions \<^verbatim>\<open>sounds\<close> inherits from
  \<^verbatim>\<open>Object.prototype\<close>, and \<^verbatim>\<open>play\<close> calls them as \<^verbatim>\<open>fn(options)\<close>, with \<^verbatim>\<open>this\<close> undefined.
  None of them touches the page: \<^verbatim>\<open>constructor\<close> and \<^verbatim>\<open>toString\<close> return,
  \<^verbatim>\<open>isPrototypeOf\<close> returns for an argument that is not an object and throws otherwise,
  the others throw a TypeError when they convert \<^verbatim>\<open>this\<close> to an object.
\<close>

definition inherited_throwing :: "string list" where
  "inherited_throwing =
     [''hasOwnProperty'', ''valueOf'', ''toLocaleString'', ''propertyIsEnumerable'',
      ''__defineGetter__'', ''__defineSetter__'', ''__lookupGetter__'', ''__lookupSetter__'']"

definition inherited_call :: "string \<Rightarrow> (js_options \<Rightarrow> page \<Rightarrow> error option \<times> page) option" where
  "inherited_call ty =
     (if ty = ''constructor'' \<or> ty = ''toString'' then Some (\<lambda>options p. (None, p))
      else if ty = ''isPrototypeOf''
        then Some (\<lambda>options p. case options of
                     opts_object x \<Rightarrow> (Some TypeError, p)
                   | opts_undefined \<Rightarrow> (None, p)
                   | opts_null \<Rightarrow> (None, p))
      else if ty \<in> set inherited_throwing then Some (\<lambda>options p. (Some TypeError, p))
      else None)"

text \<open>\<^verbatim>\<open>sounds[type]\<close>: the entries of the table first, then what it inherits.\<close>

definition sounds :: "string \<Rightarrow> (js_options \<Rightarrow> page \<Rightarrow> error option \<times> page) option" where
  "sounds ty =
     (if ty = ''click'' then Some sounds_click
      else if ty = ''hover'' then Some sounds_hover
      else if ty = ''success'' then Some sounds_success
      else if ty = ''error'' then Some sounds_error
      else if ty = ''hurt'' then Some sounds_hurt
      else if ty = ''scan'' then Some sounds_scan
      else if ty = ''level_up'' then Some sounds_level_up
      else inherited_call ty)"

text \<open>The body of the \<^verbatim>\<open>try\<close> block of \<^verbatim>\<open>play(type, options = {})\<close>, and \<^verbatim>\<open>play\<close> itself,
  whose \<^verbatim>\<open>catch\<close> logs the exception.\<close>

definition play_try :: "string \<Rightarrow> js_options \<Rightarrow> page \<Rightarrow> error option \<times> page" where
  "play_try ty options p =
     (case (if audioCtx p = None then initContext p else (None, p)) of
        (Some err, p1) \<Rightarrow> (Some err, p1)
      | (None, p1) \<Rightarrow>
          (case sounds ty of
             None \<Rightarrow> (None, p1)
           | Some fn \<Rightarrow>
               fn (case options of opts_undefined \<Rightarrow> opts_object None | opts_null \<Rightarrow> opts_null
                   | opts_object x \<Rightarrow> opts_object x) p1))"

definition play :: "string \<Rightarrow> js_options \<Rightarrow> page \<Rightarrow> error option \<times> page" where
  "play ty options p =
     (case play_try ty options p of
        (Some err, p1) \<Rightarrow> (None, p1\<lparr>console := console p1 @ [''Sound playback error:'']\<rparr>)
      | (None, p1) \<Rightarrow> (None, p1))"

text \<open>The page when the script has been evaluated, in a browser with working
  \<^verbatim>\<open>AudioContext\<close> and \<^verbatim>\<open>Worker\<close>, and in one without an \<^verbatim>\<open>AudioContext\<close>.\<close>

definition loaded_page :: page where
  "loaded_page =
     \<lparr>audioCtx = None, masterGain = None, ambientGain = None, ambientStarted = False,
      ambientTimer = None, audioWorker = None, AudioContext_ctor = True,
      new_ctx_suspended = True, Worker_ctor = Worker_ok, workers = [],
      sessionStorage = Map.empty, intervals = [], nextInterval = 1, console = []\<rparr>"

definition silent_page :: page where
  "silent_page = loaded_page\<lparr>AudioContext_ctor := False\<rparr>"

text \<open>The freshly loaded page in a browser that lets a new context run at once (the user
  has interacted with the site before).\<close>

definition autoplay_page :: page where
  "autoplay_page = loaded_page\<lparr>new_ctx_suspended := False\<rparr>"

text \<open>The two oscillators of \<^verbatim>\<open>sounds.click\<close> at intensity 1, scheduled at \<open>now\<close>.\<close>

definition click_voices :: "real \<Rightarrow> voice list" where
  "click_voices now =
     [\<lparr>v_wave = square, v_frequency = 293.66, v_start = now, v_stop = Some (now + 0.06),
       v_peak = 0.1, v_dest = master_bus\<rparr>,
      \<lparr>v_wave = triangle, v_frequency = 220.0, v_start = now + 0.01,
       v_stop = Some (now + 0.01 + 0.08), v_peak = 0.08, v_dest = master_bus\<rparr>]"

text \<open>The page after a first \<^verbatim>\<open>startAmbient()\<close>.\<close>

definition ambient_page :: page where
  "ambient_page = snd (startAmbient loaded_page)"

section \<open>Properties of the scheduler\<close>

subsection \<open>Auxiliary facts\<close>

lemma js_rem_nonneg: "0 \<le> a \<Longrightarrow> 0 < b \<Longrightarrow> js_rem a b = a mod b"
  by (cases "a = 0") (simp_all add: js_rem_def)

lemma js_rem_advance: "0 \<le> i \<Longrightarrow> i < L \<Longrightarrow> js_rem (i + 1) L = (i + 1) mod L"
  by (rule js_rem_nonneg) linarith+

lemma melody_at_Some_iff:
  "melody_at m i = Some t \<longleftrightarrow> 0 \<le> i \<and> i < int (length m) \<and> t = m ! nat i"
  by (auto simp: melody_at_def)

lemma processNext_idle:
  "\<not> isRunning (SchedulerInstance w) \<Longrightarrow> processNext now w = (None, w)"
  by (simp add: processNext_def)

lemma processNext_undefined:
  "isRunning (SchedulerInstance w) \<Longrightarrow>
   melody_at (melody (SchedulerInstance w)) (currentIndex (SchedulerInstance w)) = None \<Longrightarrow>
   processNext now w = (Some TypeError, w)"
  by (simp add: processNext_def)

text \<open>The whole effect of one emission step of a running scheduler at a valid position.\<close>

lemma processNext_emits:
  assumes "isRunning (SchedulerInstance w)"
    and "melody_at (melody (SchedulerInstance w)) (currentIndex (SchedulerInstance w)) = Some task"
  shows "processNext now w =
    (None,
     w\<lparr>SchedulerInstance := (SchedulerInstance w)
          \<lparr>currentIndex := js_rem (currentIndex (SchedulerInstance w) + 1)
                             (int (length (melody (SchedulerInstance w)))),
           lastExecutionTime :=
             (if lastExecutionTime (SchedulerInstance w) + duration task - now < 0 then now
              else lastExecutionTime (SchedulerInstance w) + duration task),
           timer := Some (nextHandle w)\<rparr>,
       timeouts := filter (\<lambda>p. Some (fst p) \<noteq> timer (SchedulerInstance w)) (timeouts w)
                   @ [(nextHandle w,
                       if lastExecutionTime (SchedulerInstance w) + duration task - now < 0 then 0
                       else lastExecutionTime (SchedulerInstance w) + duration task - now)],
       nextHandle := Suc (nextHandle w),
       posted := posted w @ [emission task now (currentIndex (SchedulerInstance w))]\<rparr>)"
  using assms
  by (simp add: processNext_def Let_def postMessage_def clearTimeout_def setTimeout_def
           split: option.splits)

lemma stop_stop: "stop (stop w) = stop w"
  by (simp add: stop_def clearTimeout_def Let_def split: option.splits)

lemma stop_fields:
  "isRunning (SchedulerInstance (stop w)) = False"
  "timer (SchedulerInstance (stop w)) = None"
  "currentIndex (SchedulerInstance (stop w)) = currentIndex (SchedulerInstance w)"
  "lastExecutionTime (SchedulerInstance (stop w)) = lastExecutionTime (SchedulerInstance w)"
  "melody (SchedulerInstance (stop w)) = melody (SchedulerInstance w)"
  "posted (stop w) = posted w"
  "nextHandle (stop w) = nextHandle w"
  "timeouts (stop w) = filter (\<lambda>p. Some (fst p) \<noteq> timer (SchedulerInstance w)) (timeouts w)"
  by (simp_all add: stop_def clearTimeout_def Let_def split: option.splits)

lemma stop_stopped:
  "\<not> isRunning (SchedulerInstance w) \<Longrightarrow> timer (SchedulerInstance w) = None \<Longrightarrow> stop w = w"
  by (simp add: stop_def)

subsection \<open>The single timeout slot is an invariant of the event loop\<close>

lemma single_slot_cases:
  "single_slot w \<longleftrightarrow>
     timeouts w = [] \<or> (\<exists>h d. timeouts w = [(h, d)] \<and> timer (SchedulerInstance w) = Some h)"
  by (auto simp: single_slot_def split: list.splits)

lemma single_slot_processNext: "single_slot w \<Longrightarrow> single_slot (snd (processNext now w))"
proof (cases "isRunning (SchedulerInstance w)")
  case False
  assume "single_slot w"
  with False show ?thesis by (simp add: processNext_idle)
next
  case True
  assume inv: "single_slot w"
  show ?thesis
  proof (cases "melody_at (melody (SchedulerInstance w)) (currentIndex (SchedulerInstance w))")
    case None
    with True inv show ?thesis by (simp add: processNext_undefined)
  next
    case (Some task)
    from inv show ?thesis
      by (auto simp: processNext_emits[OF True Some] single_slot_cases)
  qed
qed

lemma single_slot_clear: "single_slot w \<Longrightarrow> single_slot (clearTimeout h w)"
  by (cases "timeouts w") (auto simp: single_slot_def clearTimeout_def split: list.splits)

lemma single_slot_stop: "single_slot w \<Longrightarrow> timeouts (stop w) = []"
  by (auto simp: single_slot_cases stop_fields)

lemma single_slot_handle: "single_slot w \<Longrightarrow> single_slot (snd (handle ev w))"
proof (cases ev)
  case (Message e t0 t1)
  assume inv: "single_slot w"
  show ?thesis
  proof (cases "action e")
    case start_action
    have "single_slot (w\<lparr>SchedulerInstance := s'\<rparr>)"
      if "timer s' = timer (SchedulerInstance w)" for s'
      using inv that by (simp add: single_slot_def split: list.splits)
    then show ?thesis using inv Message start_action
      by (simp add: onmessage_def start_def Let_def single_slot_processNext)
  next
    case stop_action
    with inv Message show ?thesis
      by (simp add: onmessage_def single_slot_cases[of "stop w"] single_slot_stop)
  next
    case sync_action
    with inv Message show ?thesis
      by (auto simp: onmessage_def single_slot_cases split: option.splits)
  next
    case get_status
    with inv Message show ?thesis
      by (auto simp: onmessage_def single_slot_cases postMessage_def)
  next
    case check_health
    with inv Message show ?thesis
      by (auto simp: onmessage_def single_slot_cases postMessage_def)
  next
    case set_performance_mode
    with inv Message show ?thesis
      by (simp add: onmessage_def)
  next
    case other
    with inv Message show ?thesis
      by (simp add: onmessage_def)
  qed
next
  case (Fire h now)
  assume inv: "single_slot w"
  with Fire show ?thesis
    by (simp add: fire_def single_slot_processNext single_slot_clear)
qed

lemma single_slot_run: "single_slot w \<Longrightarrow> single_slot (run evs w)"
  by (induction evs arbitrary: w) (simp_all add: single_slot_handle)


lemma single_slot_empty: "timeouts w = [] \<Longrightarrow> single_slot w"
  by (simp add: single_slot_def)

subsection \<open>The older copy: a timeout is pending only while the scheduler runs\<close>












subsection \<open>Sums of nominal durations\<close>

lemma nominal_durations_Suc:
  "nominal_durations m i (Suc n) =
     duration (m ! nat (i mod int (length m))) # nominal_durations m ((i + 1) mod int (length m)) n"
proof -
  have "[0..<Suc n] = 0 # map Suc [0..<n]"
    by (simp add: upt_conv_Cons map_Suc_upt del: upt_Suc)
  moreover have "((i + 1) mod int (length m) + int k) mod int (length m)
                   = (i + int (Suc k)) mod int (length m)" for k
    by (simp add: mod_simps ac_simps)
  ultimately show ?thesis
    by (simp add: nominal_durations_def comp_def del: upt_Suc)
qed

text \<open>The two steps of the scenario, evaluated.\<close>

lemma scenario_posted:
  "posted (run [Message \<lparr>action = start_action, index = Some 0\<rparr> 0 0, Fire 1 1000] scenario_boot)
     = [play_note 440 1000 1 0 0, sync_state 1]"
  by (simp add: scenario_boot_def boot_def newBackgroundScheduler_def scenario_melody_def
      newAudioTask_def onmessage_def start_def processNext_def fire_def melody_at_def
      emission_def js_rem_def postMessage_def clearTimeout_def setTimeout_def Let_def)

subsection \<open>Double arithmetic\<close>

text \<open>
  Rounding to the nearest double is computed from the binade of the argument; whole numbers
  below \<open>2 ^ 53\<close> are doubles, and sums of them stay exact.
\<close>

lemma round_half_even_of_int: "round_half_even (of_int m) = m"
  by (simp add: round_half_even_def)

lemma binade_eqI:
  assumes "2 ^ k \<le> \<bar>x\<bar>" and "\<bar>x\<bar> < 2 ^ Suc k"
  shows "binade x = int k"
proof -
  have "(0::real) < 2 ^ k" by simp
  with assms(1) have pos: "0 < \<bar>x\<bar>" by linarith
  have "\<lfloor>log 2 \<bar>x\<bar>\<rfloor> = int k \<longleftrightarrow> 2 powr (int k) \<le> \<bar>x\<bar> \<and> \<bar>x\<bar> < 2 powr (int k + 1)"
    using pos by (intro floor_log_eq_powr_iff) simp_all
  moreover have "2 powr (int k) = (2::real) ^ k" by (simp add: powr_realpow)
  moreover have "2 powr (real_of_int (int k) + 1) = (2::real) ^ Suc k"
    by (simp add: powr_add powr_realpow)
  ultimately show ?thesis using assms by (simp add: binade_def)
qed

lemma ulp_eq:
  assumes "binade x = int k" and "k \<le> 52"
  shows "ulp x = 1 / 2 ^ (52 - k)"
proof -
  have "max (binade x - 52) (- 1074) = - int (52 - k)" using assms by simp
  then have "ulp x = 2 powr (- real (52 - k))" by (simp add: ulp_def)
  also have "\<dots> = 1 / 2 ^ (52 - k)" by (simp add: powr_minus powr_realpow inverse_eq_divide)
  finally show ?thesis .
qed

lemma fl_eval:
  assumes "2 ^ k \<le> \<bar>x\<bar>" and "\<bar>x\<bar> < 2 ^ Suc k" and "k \<le> 52"
  shows "fl x = of_int (round_half_even (x * 2 ^ (52 - k))) / 2 ^ (52 - k)"
proof -
  have "(0::real) < 2 ^ k" by simp
  with assms(1) have "x \<noteq> 0" by linarith
  moreover have "ulp x = 1 / 2 ^ (52 - k)"
    using binade_eqI[OF assms(1,2)] assms(3) by (rule ulp_eq)
  ultimately show ?thesis by (simp add: fl_def)
qed

lemma fl_of_int:
  assumes "\<bar>n\<bar> < 2 ^ 53"
  shows "fl (of_int n) = of_int n"
proof (cases "n = 0")
  case True
  then show ?thesis by (simp add: fl_def)
next
  case False
  then have "1 \<le> nat \<bar>n\<bar>" by simp
  with ex_power_ivl1[of 2 "nat \<bar>n\<bar>"] obtain k where
    k: "2 ^ k \<le> nat \<bar>n\<bar>" "nat \<bar>n\<bar> < 2 ^ Suc k"
    by auto
  have "nat \<bar>n\<bar> < 2 ^ 53" using assms by (simp add: nat_less_iff)
  with k(1) have p: "(2::nat) ^ k < 2 ^ 53" by linarith
  have "k < 53" by (rule power_less_imp_less_exp[of 2]) (simp, rule p)
  then have k52: "k \<le> 52" by simp
  have a: "\<bar>of_int n :: real\<bar> = real (nat \<bar>n\<bar>)" by simp
  have "real (2 ^ k) \<le> real (nat \<bar>n\<bar>)" using k(1) by (simp only: of_nat_le_iff)
  then have lo: "2 ^ k \<le> \<bar>of_int n :: real\<bar>"
    unfolding a by simp
  have "real (nat \<bar>n\<bar>) < real (2 ^ Suc k)" using k(2) by (simp only: of_nat_less_iff)
  then have hi: "\<bar>of_int n :: real\<bar> < 2 ^ Suc k"
    unfolding a by simp
  have "of_int n * (2::real) ^ (52 - k) = of_int (n * 2 ^ (52 - k))" by simp
  then have "fl (of_int n) = of_int (n * 2 ^ (52 - k)) / 2 ^ (52 - k)"
    by (simp only: fl_eval[OF lo hi k52] round_half_even_of_int)
  then show ?thesis by simp
qed

lemma fl_numeral: "(numeral n :: int) < 2 ^ 53 \<Longrightarrow> fl (numeral n) = numeral n"
  using fl_of_int[of "numeral n"] by simp

lemma fl_zero: "fl 0 = 0"
  by (simp add: fl_def)

lemma processNext_double_emits:
  assumes "isRunning (SchedulerInstance w)"
    and "melody_at (melody (SchedulerInstance w)) (currentIndex (SchedulerInstance w)) = Some task"
  shows "processNext_double now w =
    (None,
     w\<lparr>SchedulerInstance := (SchedulerInstance w)
          \<lparr>currentIndex := js_rem (currentIndex (SchedulerInstance w) + 1)
                             (int (length (melody (SchedulerInstance w)))),
           lastExecutionTime :=
             (if fl (fl (lastExecutionTime (SchedulerInstance w) + duration task) - now) < 0 then now
              else fl (lastExecutionTime (SchedulerInstance w) + duration task)),
           timer := Some (nextHandle w)\<rparr>,
       timeouts := filter (\<lambda>p. Some (fst p) \<noteq> timer (SchedulerInstance w)) (timeouts w)
                   @ [(nextHandle w,
                       if fl (fl (lastExecutionTime (SchedulerInstance w) + duration task) - now) < 0 then 0
                       else fl (fl (lastExecutionTime (SchedulerInstance w) + duration task) - now))],
       nextHandle := Suc (nextHandle w),
       posted := posted w @ [emission task now (currentIndex (SchedulerInstance w))]\<rparr>)"
  using assms
  by (simp add: processNext_double_def Let_def postMessage_def clearTimeout_def setTimeout_def
           split: option.splits)

lemma no_rounding_sum:
  "no_rounding t ds \<Longrightarrow> foldl (\<lambda>t d. fl (t + d)) t ds = t + sum_list ds"
  by (induction ds arbitrary: t) (simp_all add: add.assoc)

lemma fl_Ints:
  assumes "x \<in> \<int>" and "\<bar>x\<bar> < 2 ^ 53"
  shows "fl x = x"
proof -
  from assms(1) obtain n where n: "x = of_int n" by (auto elim: Ints_cases)
  with assms(2) have "\<bar>real_of_int n\<bar> < 2 ^ 53" by simp
  then have "real_of_int \<bar>n\<bar> < real_of_int (2 ^ 53)" by simp
  then have "\<bar>n\<bar> < 2 ^ 53" by (simp only: of_int_less_iff)
  then show ?thesis unfolding n by (rule fl_of_int)
qed

lemma no_rounding_Ints:
  assumes "t \<in> \<int>" and "0 \<le> t" and "\<forall>d\<in>set ds. d \<in> \<int> \<and> 0 \<le> d"
    and "t + sum_list ds < 2 ^ 53"
  shows "no_rounding t ds"
  using assms
proof (induction ds arbitrary: t)
  case Nil
  show ?case by simp
next
  case (Cons d ds)
  from Cons.prems have d: "d \<in> \<int>" "0 \<le> d" and rest: "\<forall>e\<in>set ds. e \<in> \<int> \<and> 0 \<le> e"
    by simp_all
  from rest have "0 \<le> sum_list ds" by (simp add: sum_list_nonneg)
  with Cons.prems(2,4) d have b: "0 \<le> t + d" "t + d < 2 ^ 53" by simp_all
  have i: "t + d \<in> \<int>" using Cons.prems(1) d(1) by simp
  from b have "\<bar>t + d\<bar> < 2 ^ 53" by simp
  with i have "fl (t + d) = t + d" by (rule fl_Ints)
  moreover have "no_rounding (t + d) ds"
    using i b(1) rest Cons.prems(4) by (intro Cons.IH) (simp_all add: add.assoc)
  ultimately show ?case by simp
qed

text \<open>
  The double nearest to 100.3 is \<open>7057985041019699 / 2 ^ 46\<close>. Adding 2000 to it rounds
  up by \<open>13 / 2 ^ 46\<close>, and subtracting it again gives \<open>2000 + 1 / 2 ^ 42\<close> after rounding.
\<close>

lemma fl_sum_example: "fl (147795473396347699 / 70368744177664) = 2309304271817933 / 1099511627776"
proof -
  have lo: "(2::real) ^ 11 \<le> \<bar>147795473396347699 / 70368744177664\<bar>" by simp
  have hi: "\<bar>147795473396347699 / 70368744177664 :: real\<bar> < 2 ^ Suc 11" by simp
  have k: "(11::nat) \<le> 52" by simp
  have r: "round_half_even (147795473396347699 / 70368744177664 * 2 ^ (52 - 11)) = 4618608543635866"
    by (simp add: round_half_even_def)
  show ?thesis
    unfolding fl_eval[OF lo hi k] r by simp
qed

lemma fl_difference_example:
  "fl (140737488355328013 / 70368744177664) = 8796093022208001 / 4398046511104"
proof -
  have lo: "(2::real) ^ 10 \<le> \<bar>140737488355328013 / 70368744177664\<bar>" by simp
  have hi: "\<bar>140737488355328013 / 70368744177664 :: real\<bar> < 2 ^ Suc 10" by simp
  have k: "(10::nat) \<le> 52" by simp
  have r: "round_half_even (140737488355328013 / 70368744177664 * 2 ^ (52 - 10)) = 8796093022208001"
    by (simp add: round_half_even_def)
  show ?thesis
    unfolding fl_eval[OF lo hi k] r by simp
qed

subsection \<open>The index an event carries\<close>

text \<open>
  Claim C1, as the code has it. Every emission step of a running scheduler at a valid
  position \<open>i\<close> posts exactly one event, \<^verbatim>\<open>play_note\<close> for a note and \<^verbatim>\<open>sync_state\<close> for a
  rest, and the \<^verbatim>\<open>currentIndex\<close> of that event is \<open>i\<close> itself, the position of the task
  just emitted: the message is posted before the index advances. Only the scheduler's own
  \<^verbatim>\<open>currentIndex\<close> is \<open>(i + 1) mod L\<close> after the step.
\<close>

theorem event_carries_emitted_position:
  assumes "isRunning (SchedulerInstance w)"
    and "melody_at (melody (SchedulerInstance w)) (currentIndex (SchedulerInstance w)) = Some task"
  shows "posted (snd (processNext now w))
           = posted w @ [emission task now (currentIndex (SchedulerInstance w))]
       \<and> msg_currentIndex (emission task now (currentIndex (SchedulerInstance w)) :: status worker_msg)
           = Some (currentIndex (SchedulerInstance w))
       \<and> currentIndex (SchedulerInstance (snd (processNext now w)))
           = (currentIndex (SchedulerInstance w) + 1) mod int (length (melody (SchedulerInstance w)))"
proof -
  from assms(2) have "0 \<le> currentIndex (SchedulerInstance w)"
    and "currentIndex (SchedulerInstance w) < int (length (melody (SchedulerInstance w)))"
    by (simp_all add: melody_at_Some_iff)
  then have "js_rem (currentIndex (SchedulerInstance w) + 1) (int (length (melody (SchedulerInstance w))))
     = (currentIndex (SchedulerInstance w) + 1) mod int (length (melody (SchedulerInstance w)))"
    by (rule js_rem_advance)
  then show ?thesis
    by (simp add: processNext_emits[OF assms] emission_def)
qed

text \<open>
  Witness for C1: the third task of the built-in melody, emitted by a running scheduler.
\<close>

theorem event_carries_emitted_position_witness:
  "posted (snd (processNext 7 (boot\<lparr>SchedulerInstance :=
        newBackgroundScheduler\<lparr>isRunning := True, currentIndex := 2\<rparr>\<rparr>)))
     = [play_note (26163 / 100) 1500 1 7 2]
   \<and> currentIndex (SchedulerInstance (snd (processNext 7 (boot\<lparr>SchedulerInstance :=
        newBackgroundScheduler\<lparr>isRunning := True, currentIndex := 2\<rparr>\<rparr>)))) = 3"
proof -
  let ?w = "boot\<lparr>SchedulerInstance := newBackgroundScheduler\<lparr>isRunning := True, currentIndex := 2\<rparr>\<rparr>"
  have r: "isRunning (SchedulerInstance ?w)"
    by (simp add: boot_def)
  have a: "melody_at (melody (SchedulerInstance ?w)) (currentIndex (SchedulerInstance ?w))
             = Some (newAudioTask (26163 / 100) 1500 1 False)"
    by (simp add: boot_def newBackgroundScheduler_def the_melody_def melody_at_def)
  from event_carries_emitted_position[OF r a, of 7] show ?thesis
    by (simp add: boot_def newBackgroundScheduler_def the_melody_def emission_def newAudioTask_def)
qed

text \<open>
  Counterexample to C1 as stated: in the two-entry scenario started at index 0 the first
  event is \<^verbatim>\<open>play_note\<close> with index 0 and the second \<^verbatim>\<open>sync_state\<close> with index 1, not 1
  and 0.
\<close>

theorem scenario_indices_counterexample:
  "map msg_currentIndex
     (posted (run [Message \<lparr>action = start_action, index = Some 0\<rparr> 0 0, Fire 1 1000] scenario_boot))
     = [Some 0, Some 1]
   \<and> map msg_currentIndex
     (posted (run [Message \<lparr>action = start_action, index = Some 0\<rparr> 0 0, Fire 1 1000] scenario_boot))
     \<noteq> [Some ((0 + 1) mod 2), Some ((1 + 1) mod 2)]"
  unfolding scenario_posted by simp

subsection \<open>Starting and realigning\<close>

text \<open>
  Claim C2, as the code has it. Let \<open>L\<close> be the length of the (non-empty) melody and
  \<open>r \<ge> 0\<close>. On an idle scheduler \<^verbatim>\<open>start(r)\<close> does not throw, emits as its first event the
  task at position \<open>r mod L\<close> (with that position in the event) and leaves
  \<open>0 \<le> currentIndex < L\<close>; on a running scheduler \<^verbatim>\<open>start\<close> changes nothing. The control
  message \<^verbatim>\<open>sync\<close> with index \<open>r\<close> sets \<^verbatim>\<open>currentIndex\<close> to \<open>r mod L\<close>, which lies in
  \<open>0 \<le> \<dots> < L\<close>, whether the scheduler runs or not.
\<close>

theorem start_and_sync_wrap:
  assumes "melody (SchedulerInstance w) \<noteq> []" and "0 \<le> r"
  shows "(\<not> isRunning (SchedulerInstance w) \<longrightarrow>
            fst (start r t0 t1 w) = None
          \<and> posted (snd (start r t0 t1 w))
              = posted w @
                [emission (melody (SchedulerInstance w) ! nat (r mod int (length (melody (SchedulerInstance w)))))
                          t1 (r mod int (length (melody (SchedulerInstance w))))]
          \<and> 0 \<le> currentIndex (SchedulerInstance (snd (start r t0 t1 w)))
          \<and> currentIndex (SchedulerInstance (snd (start r t0 t1 w)))
              < int (length (melody (SchedulerInstance w))))
       \<and> (isRunning (SchedulerInstance w) \<longrightarrow> start r t0 t1 w = (None, w))
       \<and> currentIndex (SchedulerInstance
            (snd (onmessage \<lparr>action = sync_action, index = Some r\<rparr> t0 t1 w)))
            = r mod int (length (melody (SchedulerInstance w)))
       \<and> 0 \<le> r mod int (length (melody (SchedulerInstance w)))
       \<and> r mod int (length (melody (SchedulerInstance w))) < int (length (melody (SchedulerInstance w)))"
proof -
  let ?s = "SchedulerInstance w"
  let ?L = "int (length (melody ?s))"
  from assms(1) have L: "0 < ?L" by simp
  have rem: "js_rem r ?L = r mod ?L" using assms(2) L by (rule js_rem_nonneg)
  let ?w0 = "w\<lparr>SchedulerInstance :=
                 ?s\<lparr>currentIndex := r mod ?L, isRunning := True, lastExecutionTime := t0\<rparr>\<rparr>"
  have at: "melody_at (melody (SchedulerInstance ?w0)) (currentIndex (SchedulerInstance ?w0))
              = Some (melody ?s ! nat (r mod ?L))"
    using L by (simp add: melody_at_def)
  have running: "isRunning (SchedulerInstance ?w0)" by simp
  have st: "start r t0 t1 w = processNext t1 ?w0" if "\<not> isRunning ?s"
    using that by (simp add: start_def Let_def rem)
  have nxt: "js_rem (r mod ?L + 1) ?L = (r mod ?L + 1) mod ?L"
    using L by (intro js_rem_nonneg) simp_all
  have idle: "fst (start r t0 t1 w) = None
          \<and> posted (snd (start r t0 t1 w))
              = posted w @ [emission (melody ?s ! nat (r mod ?L)) t1 (r mod ?L)]
          \<and> 0 \<le> currentIndex (SchedulerInstance (snd (start r t0 t1 w)))
          \<and> currentIndex (SchedulerInstance (snd (start r t0 t1 w))) < ?L" if "\<not> isRunning ?s"
    using L by (simp add: st[OF that] processNext_emits[OF running at] nxt)
  have busy: "start r t0 t1 w = (None, w)" if "isRunning ?s"
    using that by (simp add: start_def)
  have sync: "currentIndex (SchedulerInstance
                (snd (onmessage \<lparr>action = sync_action, index = Some r\<rparr> t0 t1 w))) = r mod ?L"
    by (simp add: onmessage_def rem)
  from idle busy sync L show ?thesis by simp
qed

text \<open>
  Witness for C2: \<^verbatim>\<open>start(25)\<close> on the freshly loaded worker emits the task at position
  \<open>25 mod 11 = 3\<close>, and \<^verbatim>\<open>sync\<close> with index 25 sets the position to 3.
\<close>

theorem start_and_sync_wrap_witness:
  "posted (snd (start 25 5 6 boot)) = [play_note (29366 / 100) 1500 1 6 3]
   \<and> 0 \<le> currentIndex (SchedulerInstance (snd (start 25 5 6 boot)))
   \<and> currentIndex (SchedulerInstance (snd (start 25 5 6 boot))) < 11
   \<and> currentIndex (SchedulerInstance
        (snd (onmessage \<lparr>action = sync_action, index = Some 25\<rparr> 5 6 boot))) = 3"
proof -
  have m: "melody (SchedulerInstance boot) \<noteq> []"
    by (simp add: boot_def newBackgroundScheduler_def the_melody_def)
  have r: "(0::int) \<le> 25" by simp
  have i: "\<not> isRunning (SchedulerInstance boot)"
    by (simp add: boot_def newBackgroundScheduler_def)
  from start_and_sync_wrap[OF m r, of 5 6] i show ?thesis
    by (simp add: boot_def newBackgroundScheduler_def the_melody_def emission_def newAudioTask_def)
qed

text \<open>
  Counterexample to C2 as stated: a negative index is not wrapped into the melody
  (\<^verbatim>\<open>-1 % 11\<close> is \<open>-1\<close>, while \<open>-1 mod 11 = 10\<close>): after \<^verbatim>\<open>start\<close> or \<^verbatim>\<open>sync\<close> with index
  \<open>-1\<close> the scheduler's \<^verbatim>\<open>currentIndex\<close> is \<open>-1\<close>, outside \<open>0 \<le> \<dots> < 11\<close>. And
  \<^verbatim>\<open>start(5)\<close> sent to a scheduler that already runs leaves the position where it was.
\<close>

theorem start_and_sync_wrap_counterexample:
  "currentIndex (SchedulerInstance
     (snd (onmessage \<lparr>action = start_action, index = Some (- 1)\<rparr> 0 0 boot))) = - 1
   \<and> currentIndex (SchedulerInstance
     (snd (onmessage \<lparr>action = sync_action, index = Some (- 1)\<rparr> 0 0 boot))) = - 1
   \<and> (- 1) mod int (length (melody (SchedulerInstance boot))) = 10
   \<and> currentIndex (SchedulerInstance
     (run [Message \<lparr>action = start_action, index = Some 0\<rparr> 0 0,
           Message \<lparr>action = start_action, index = Some 5\<rparr> 1 1] boot)) = 1"
  by (simp add: boot_def newBackgroundScheduler_def the_melody_def newAudioTask_def
      onmessage_def start_def processNext_def melody_at_def emission_def js_rem_def
      postMessage_def clearTimeout_def setTimeout_def Let_def)

subsection \<open>The reference clock\<close>

text \<open>
  Claim C3, as the code has it. In the scheduler of src/audio-worker.js, over any number of
  consecutive emission steps of a running scheduler, taken at arbitrary clock readings of
  which none makes the computed delay negative, the final \<^verbatim>\<open>lastExecutionTime\<close> is the
  initial one with the nominal durations of the tasks emitted, rests and notes alike, added
  to it one after the other in double arithmetic: it depends on the clock readings in no
  way. The final value minus the initial one is exactly the sum of these durations whenever
  none of the additions rounds, which is the case when the initial value and the durations
  are whole, non-negative numbers of milliseconds whose sum stays below \<open>2 ^ 53\<close>. (From a
  fractional initial value the additions round, and the older copy of the scheduler has no
  such reference clock, see the counterexample below.)
\<close>

theorem reference_clock_accumulates_nominal_durations:
  assumes "isRunning (SchedulerInstance w)" and "never_stalled nows w"
  shows "lastExecutionTime (SchedulerInstance (emission_steps nows w))
           = foldl (\<lambda>t d. fl (t + d)) (lastExecutionTime (SchedulerInstance w))
               (nominal_durations (melody (SchedulerInstance w))
                  (currentIndex (SchedulerInstance w)) (length nows))
       \<and> (no_rounding (lastExecutionTime (SchedulerInstance w))
             (nominal_durations (melody (SchedulerInstance w))
                (currentIndex (SchedulerInstance w)) (length nows)) \<longrightarrow>
           lastExecutionTime (SchedulerInstance (emission_steps nows w))
             - lastExecutionTime (SchedulerInstance w)
           = sum_list (nominal_durations (melody (SchedulerInstance w))
                (currentIndex (SchedulerInstance w)) (length nows)))
       \<and> (lastExecutionTime (SchedulerInstance w) \<in> \<int>
           \<and> 0 \<le> lastExecutionTime (SchedulerInstance w)
           \<and> (\<forall>d\<in>set (nominal_durations (melody (SchedulerInstance w))
                       (currentIndex (SchedulerInstance w)) (length nows)). d \<in> \<int> \<and> 0 \<le> d)
           \<and> lastExecutionTime (SchedulerInstance w)
               + sum_list (nominal_durations (melody (SchedulerInstance w))
                    (currentIndex (SchedulerInstance w)) (length nows)) < 2 ^ 53 \<longrightarrow>
           lastExecutionTime (SchedulerInstance (emission_steps nows w))
             - lastExecutionTime (SchedulerInstance w)
           = sum_list (nominal_durations (melody (SchedulerInstance w))
                (currentIndex (SchedulerInstance w)) (length nows)))"
proof -
  let ?ds = "nominal_durations (melody (SchedulerInstance w))
               (currentIndex (SchedulerInstance w)) (length nows)"
  have acc: "lastExecutionTime (SchedulerInstance (emission_steps nows w))
           = foldl (\<lambda>t d. fl (t + d)) (lastExecutionTime (SchedulerInstance w))
               (nominal_durations (melody (SchedulerInstance w))
                  (currentIndex (SchedulerInstance w)) (length nows))"
    using assms
  proof (induction nows arbitrary: w)
    case Nil
    show ?case by (simp add: nominal_durations_def)
  next
    case (Cons now nows)
    let ?s = "SchedulerInstance w"
    from Cons.prems(2) obtain task where
      at: "melody_at (melody ?s) (currentIndex ?s) = Some task"
      and ns: "\<not> (fl (fl (lastExecutionTime ?s + duration task) - now) < 0)"
      and rest: "never_stalled nows (snd (processNext_double now w))"
      by (auto split: option.splits)
    from at have rng: "0 \<le> currentIndex ?s" "currentIndex ?s < int (length (melody ?s))"
      and task: "task = melody ?s ! nat (currentIndex ?s)"
      by (simp_all add: melody_at_Some_iff)
    let ?w' = "snd (processNext_double now w)"
    note pn = processNext_double_emits[OF Cons.prems(1) at, of now]
    have run': "isRunning (SchedulerInstance ?w')" using Cons.prems(1) by (simp add: pn)
    have mel': "melody (SchedulerInstance ?w') = melody ?s" by (simp add: pn)
    have idx': "currentIndex (SchedulerInstance ?w')
                  = (currentIndex ?s + 1) mod int (length (melody ?s))"
      using rng by (simp add: pn js_rem_advance)
    have last': "lastExecutionTime (SchedulerInstance ?w') = fl (lastExecutionTime ?s + duration task)"
      using ns by (simp add: pn)
    have "lastExecutionTime (SchedulerInstance (emission_steps nows ?w'))
         = foldl (\<lambda>t d. fl (t + d)) (fl (lastExecutionTime ?s + duration task))
             (nominal_durations (melody ?s)
                ((currentIndex ?s + 1) mod int (length (melody ?s))) (length nows))"
      using Cons.IH[OF run' rest] by (simp add: mel' idx' last')
    moreover have "currentIndex ?s mod int (length (melody ?s)) = currentIndex ?s"
      using rng by simp
    ultimately show ?case
      by (simp add: nominal_durations_Suc task)
  qed
  have exact: "lastExecutionTime (SchedulerInstance (emission_steps nows w))
             - lastExecutionTime (SchedulerInstance w) = sum_list ?ds"
    if "no_rounding (lastExecutionTime (SchedulerInstance w)) ?ds"
    using that acc by (simp add: no_rounding_sum)
  have whole: "no_rounding (lastExecutionTime (SchedulerInstance w)) ?ds"
    if "lastExecutionTime (SchedulerInstance w) \<in> \<int>"
      and "0 \<le> lastExecutionTime (SchedulerInstance w)"
      and "\<forall>d\<in>set ?ds. d \<in> \<int> \<and> 0 \<le> d"
      and "lastExecutionTime (SchedulerInstance w) + sum_list ?ds < 2 ^ 53"
    using that by (rule no_rounding_Ints)
  from acc exact whole show ?thesis by blast
qed

text \<open>
  Witness for C3: three steps over the two-entry melody (note, rest, note) from clock 0,
  each fired a few milliseconds late; no addition rounds and the reference clock moves by
  \<open>1000 + 500 + 1000\<close>.
\<close>

theorem reference_clock_accumulates_nominal_durations_witness:
  "never_stalled [3, 1004, 1501]
     (scenario_boot\<lparr>SchedulerInstance := (SchedulerInstance scenario_boot)\<lparr>isRunning := True\<rparr>\<rparr>)
   \<and> no_rounding 0 [1000, 500, 1000]
   \<and> lastExecutionTime (SchedulerInstance (emission_steps [3, 1004, 1501]
       (scenario_boot\<lparr>SchedulerInstance := (SchedulerInstance scenario_boot)\<lparr>isRunning := True\<rparr>\<rparr>)))
     = fl (fl (fl (0 + 1000) + 500) + 1000)
   \<and> lastExecutionTime (SchedulerInstance (emission_steps [3, 1004, 1501]
       (scenario_boot\<lparr>SchedulerInstance := (SchedulerInstance scenario_boot)\<lparr>isRunning := True\<rparr>\<rparr>)))
     - lastExecutionTime (SchedulerInstance scenario_boot)
     = 1000 + 500 + 1000"
proof -
  let ?w = "scenario_boot\<lparr>SchedulerInstance := (SchedulerInstance scenario_boot)\<lparr>isRunning := True\<rparr>\<rparr>"
  have r: "isRunning (SchedulerInstance ?w)" by simp
  have n: "never_stalled [3, 1004, 1501] ?w"
    by (simp add: scenario_boot_def boot_def newBackgroundScheduler_def scenario_melody_def
        newAudioTask_def processNext_double_def melody_at_def emission_def js_rem_def
        postMessage_def clearTimeout_def setTimeout_def Let_def fl_numeral)
  have d: "nominal_durations (melody (SchedulerInstance ?w))
             (currentIndex (SchedulerInstance ?w)) (length [3, 1004, 1501 :: real]) = [1000, 500, 1000]"
    by (simp add: nominal_durations_def scenario_boot_def boot_def newBackgroundScheduler_def
        scenario_melody_def newAudioTask_def)
  have l: "lastExecutionTime (SchedulerInstance ?w) = 0"
     "lastExecutionTime (SchedulerInstance scenario_boot) = 0"
    by (simp_all add: scenario_boot_def boot_def newBackgroundScheduler_def)
  have e: "no_rounding 0 [1000, 500, 1000]"
    by (simp add: fl_numeral)
  note c3 = reference_clock_accumulates_nominal_durations[OF r n, unfolded d l]
  from c3 have acc: "lastExecutionTime (SchedulerInstance (emission_steps [3, 1004, 1501] ?w))
                = fl (fl (fl (0 + 1000) + 500) + 1000)"
    by simp
  from c3 e have step: "lastExecutionTime (SchedulerInstance (emission_steps [3, 1004, 1501] ?w))
                - lastExecutionTime (SchedulerInstance scenario_boot) = 1000 + 500 + 1000"
    unfolding l by simp
  from n e acc step show ?thesis by blast
qed

text \<open>
  Counterexample to C3 as stated, in two parts. In src/audio-worker.js, a scheduler started
  at clock 100.3 (the double \<open>7057985041019699 / 2 ^ 46\<close>) takes its first step at the same
  reading: the delay it computes is \<open>2000 + 1 / 2 ^ 42\<close>, not negative, and
  \<^verbatim>\<open>lastExecutionTime\<close> moves by \<open>2000 + 13 / 2 ^ 46\<close>, while the nominal duration of the
  task emitted is 2000. In the older copy of the scheduler (src/unnamed/part\_002), started
  at index 3 at clock 0, the timeout fires at 2815 and the step emits the rest at position
  4, whose nominal duration is 600. The delay the step computes is \<open>600 + 15\<close>, not
  negative; \<^verbatim>\<open>lastExecutionTime\<close> goes from 0 to 2815, the observed time, not by 600.
\<close>

theorem reference_clock_counterexample:
  "never_stalled [7057985041019699 / 2 ^ 46]
     (boot\<lparr>SchedulerInstance := newBackgroundScheduler\<lparr>isRunning := True,
        lastExecutionTime := 7057985041019699 / 2 ^ 46\<rparr>\<rparr>)
   \<and> timeouts (emission_steps [7057985041019699 / 2 ^ 46]
     (boot\<lparr>SchedulerInstance := newBackgroundScheduler\<lparr>isRunning := True,
        lastExecutionTime := 7057985041019699 / 2 ^ 46\<rparr>\<rparr>)) = [(1, 2000 + 1 / 2 ^ 42)]
   \<and> lastExecutionTime (SchedulerInstance (emission_steps [7057985041019699 / 2 ^ 46]
     (boot\<lparr>SchedulerInstance := newBackgroundScheduler\<lparr>isRunning := True,
        lastExecutionTime := 7057985041019699 / 2 ^ 46\<rparr>\<rparr>)))
     - 7057985041019699 / 2 ^ 46 = 2000 + 13 / 2 ^ 46
   \<and> sum_list (nominal_durations the_melody 0 1) = 2000
   \<and> timeouts (run_part_002
       [Message_part_002 \<lparr>action = start_action, index = Some 3, mode = None\<rparr> 0 0 (1 / 2),
        Fire_part_002 1 2815 (1 / 2)] boot_part_002) = [(2, 615)]
   \<and> posted (run_part_002
       [Message_part_002 \<lparr>action = start_action, index = Some 3, mode = None\<rparr> 0 0 (1 / 2),
        Fire_part_002 1 2815 (1 / 2)] boot_part_002) = [play_note 523.25 2800 2 0 3, sync_state 4]
   \<and> lastExecutionTime (SchedulerInstance (run_part_002
       [Message_part_002 \<lparr>action = start_action, index = Some 3, mode = None\<rparr> 0 0 (1 / 2),
        Fire_part_002 1 2815 (1 / 2)] boot_part_002))
     - lastExecutionTime (SchedulerInstance (run_part_002
       [Message_part_002 \<lparr>action = start_action, index = Some 3, mode = None\<rparr> 0 0 (1 / 2)]
        boot_part_002)) = 2815
   \<and> sum_list (nominal_durations melody_part_002 4 1) = 600"
proof -
  have new_copy: "never_stalled [7057985041019699 / 2 ^ 46]
     (boot\<lparr>SchedulerInstance := newBackgroundScheduler\<lparr>isRunning := True,
        lastExecutionTime := 7057985041019699 / 2 ^ 46\<rparr>\<rparr>)
   \<and> timeouts (emission_steps [7057985041019699 / 2 ^ 46]
     (boot\<lparr>SchedulerInstance := newBackgroundScheduler\<lparr>isRunning := True,
        lastExecutionTime := 7057985041019699 / 2 ^ 46\<rparr>\<rparr>)) = [(1, 2000 + 1 / 2 ^ 42)]
   \<and> lastExecutionTime (SchedulerInstance (emission_steps [7057985041019699 / 2 ^ 46]
     (boot\<lparr>SchedulerInstance := newBackgroundScheduler\<lparr>isRunning := True,
        lastExecutionTime := 7057985041019699 / 2 ^ 46\<rparr>\<rparr>)))
     - 7057985041019699 / 2 ^ 46 = 2000 + 13 / 2 ^ 46
   \<and> sum_list (nominal_durations the_melody 0 1) = 2000"
    by (simp add: processNext_double_def boot_def newBackgroundScheduler_def the_melody_def
        newAudioTask_def melody_at_def emission_def js_rem_def postMessage_def clearTimeout_def
        setTimeout_def Let_def fl_sum_example fl_difference_example nominal_durations_def)
  have old_copy: "timeouts (run_part_002
       [Message_part_002 \<lparr>action = start_action, index = Some 3, mode = None\<rparr> 0 0 (1 / 2),
        Fire_part_002 1 2815 (1 / 2)] boot_part_002) = [(2, 615)]
   \<and> posted (run_part_002
       [Message_part_002 \<lparr>action = start_action, index = Some 3, mode = None\<rparr> 0 0 (1 / 2),
        Fire_part_002 1 2815 (1 / 2)] boot_part_002) = [play_note 523.25 2800 2 0 3, sync_state 4]
   \<and> lastExecutionTime (SchedulerInstance (run_part_002
       [Message_part_002 \<lparr>action = start_action, index = Some 3, mode = None\<rparr> 0 0 (1 / 2),
        Fire_part_002 1 2815 (1 / 2)] boot_part_002))
     - lastExecutionTime (SchedulerInstance (run_part_002
       [Message_part_002 \<lparr>action = start_action, index = Some 3, mode = None\<rparr> 0 0 (1 / 2)]
        boot_part_002)) = 2815
   \<and> sum_list (nominal_durations melody_part_002 4 1) = 600"
    by (simp add: boot_part_002_def newBackgroundScheduler_part_002_def melody_part_002_def
        newAudioTask_def onmessage_part_002_def start_part_002_def processNext_part_002_def
        fire_part_002_def melody_at_def emission_def js_rem_def postMessage_def clearTimeout_def
        setTimeout_def nominal_durations_def Let_def)
  from new_copy old_copy show ?thesis by blast
qed

subsection \<open>Catching up after a stall\<close>

text \<open>
  Claim C4. When an emission step of a running scheduler finds the computed delay
  negative, it posts its one event, leaves exactly one timeout in the table, with delay 0,
  and resets \<^verbatim>\<open>lastExecutionTime\<close> to the clock reading \<open>now\<close>. There is no burst: when that
  timeout fires at \<open>now'\<close>, not later than the next task's duration after \<open>now\<close>, the
  following step posts one more event and waits \<open>now + duration task' - now'\<close>, however
  long the stall was.
\<close>

theorem stall_schedules_one_immediate_step:
  assumes "isRunning (SchedulerInstance w)"
    and "melody_at (melody (SchedulerInstance w)) (currentIndex (SchedulerInstance w)) = Some task"
    and "lastExecutionTime (SchedulerInstance w) + duration task - now < 0"
    and "single_slot w"
    and "melody_at (melody (SchedulerInstance w))
           ((currentIndex (SchedulerInstance w) + 1) mod int (length (melody (SchedulerInstance w))))
         = Some task'"
    and "now' \<le> now + duration task'"
  shows "timeouts (snd (processNext now w)) = [(nextHandle w, 0)]
       \<and> timer (SchedulerInstance (snd (processNext now w))) = Some (nextHandle w)
       \<and> lastExecutionTime (SchedulerInstance (snd (processNext now w))) = now
       \<and> posted (snd (processNext now w))
           = posted w @ [emission task now (currentIndex (SchedulerInstance w))]
       \<and> timeouts (snd (fire (nextHandle w) now' (snd (processNext now w))))
           = [(Suc (nextHandle w), now + duration task' - now')]
       \<and> posted (snd (fire (nextHandle w) now' (snd (processNext now w))))
           = posted w @
             [emission task now (currentIndex (SchedulerInstance w)),
              emission task' now'
                ((currentIndex (SchedulerInstance w) + 1) mod int (length (melody (SchedulerInstance w))))]"
proof -
  let ?s = "SchedulerInstance w"
  let ?L = "int (length (melody ?s))"
  let ?w' = "snd (processNext now w)"
  note pn = processNext_emits[OF assms(1,2), of now]
  from assms(2) have rng: "0 \<le> currentIndex ?s" "currentIndex ?s < ?L"
    by (simp_all add: melody_at_Some_iff)
  have idx: "js_rem (currentIndex ?s + 1) ?L = (currentIndex ?s + 1) mod ?L"
    using rng by (rule js_rem_advance)
  have tab: "timeouts ?w' = [(nextHandle w, 0)]"
    using assms(3,4) by (auto simp: pn single_slot_cases)
  have first: "timer (SchedulerInstance ?w') = Some (nextHandle w)
       \<and> lastExecutionTime (SchedulerInstance ?w') = now
       \<and> posted ?w' = posted w @ [emission task now (currentIndex ?s)]"
    using assms(3) by (simp add: pn)
  let ?c = "clearTimeout (nextHandle w) ?w'"
  have fired: "fire (nextHandle w) now' ?w' = processNext now' ?c"
    by (simp add: fire_def tab)
  have c_run: "isRunning (SchedulerInstance ?c)"
    using assms(1) by (simp add: clearTimeout_def pn)
  have c_at: "melody_at (melody (SchedulerInstance ?c)) (currentIndex (SchedulerInstance ?c)) = Some task'"
    using assms(5) by (simp add: clearTimeout_def pn idx)
  have c_tab: "timeouts ?c = []"
    by (simp add: clearTimeout_def tab)
  have c_rest: "lastExecutionTime (SchedulerInstance ?c) = now"
    "posted ?c = posted w @ [emission task now (currentIndex ?s)]"
    "nextHandle ?c = Suc (nextHandle w)"
    "currentIndex (SchedulerInstance ?c) = (currentIndex ?s + 1) mod ?L"
    using assms(3) by (simp_all add: clearTimeout_def pn idx)
  have second: "timeouts (snd (fire (nextHandle w) now' ?w')) = [(Suc (nextHandle w), now + duration task' - now')]
      \<and> posted (snd (fire (nextHandle w) now' ?w'))
           = posted w @ [emission task now (currentIndex ?s), emission task' now' ((currentIndex ?s + 1) mod ?L)]"
    using assms(6) by (simp add: fired processNext_emits[OF c_run c_at] c_tab c_rest)
  from tab first second show ?thesis by simp
qed

text \<open>
  Witness for C4: the built-in melody, started at clock 0 and then stalled for a minute.
  The late step fires at 60000 and schedules one timeout with delay 0; the step after it,
  at 60010, waits \<open>60000 + 1500 - 60010 = 1490\<close>.
\<close>

theorem stall_schedules_one_immediate_step_witness:
  "timeouts (snd (processNext 60000 (snd (start 0 0 0 boot)))) = [(2, 0)]
   \<and> lastExecutionTime (SchedulerInstance (snd (processNext 60000 (snd (start 0 0 0 boot))))) = 60000
   \<and> timeouts (snd (fire 2 60010 (snd (processNext 60000 (snd (start 0 0 0 boot)))))) = [(3, 1490)]"
proof -
  let ?w = "snd (start 0 0 0 boot)"
  have w: "?w = \<lparr>SchedulerInstance =
                   \<lparr>queue = [], isRunning = True, timer = Some 1, currentIndex = 1,
                    lastExecutionTime = 2000, melody = the_melody\<rparr>,
                 timeouts = [(1, 2000)], nextHandle = 2,
                 posted = [play_note (39200 / 100) 2000 1 0 0]\<rparr>"
    by (simp add: boot_def newBackgroundScheduler_def the_melody_def newAudioTask_def
        start_def processNext_def melody_at_def emission_def js_rem_def
        postMessage_def clearTimeout_def setTimeout_def Let_def)
  have h1: "isRunning (SchedulerInstance ?w)" by (simp add: w)
  have h2: "melody_at (melody (SchedulerInstance ?w)) (currentIndex (SchedulerInstance ?w))
              = Some (newAudioTask (32963 / 100) 2000 1 False)"
    by (simp add: w the_melody_def melody_at_def)
  have h3: "lastExecutionTime (SchedulerInstance ?w)
              + duration (newAudioTask (32963 / 100) 2000 1 False) - 60000 < 0"
    by (simp add: w newAudioTask_def)
  have h4: "single_slot ?w" by (simp add: w single_slot_def)
  have h5: "melody_at (melody (SchedulerInstance ?w))
              ((currentIndex (SchedulerInstance ?w) + 1) mod int (length (melody (SchedulerInstance ?w))))
            = Some (newAudioTask (26163 / 100) 1500 1 False)"
    by (simp add: w the_melody_def melody_at_def)
  have h6: "(60010::real) \<le> 60000 + duration (newAudioTask (26163 / 100) 1500 1 False)"
    by (simp add: newAudioTask_def)
  have n: "nextHandle ?w = 2" by (simp add: w)
  from stall_schedules_one_immediate_step[OF h1 h2 h3 h4 h5 h6] show ?thesis
    unfolding n by (simp add: newAudioTask_def)
qed

subsection \<open>One pending wake-up\<close>




subsection \<open>Stopping twice\<close>

text \<open>
  Claim C8. \<^verbatim>\<open>stop()\<close> on a scheduler that is already stopped (not running, no timer
  handle) changes nothing at all; after any \<^verbatim>\<open>stop()\<close> the scheduler is in that state, so a
  second \<^verbatim>\<open>stop()\<close> is the identity; \<^verbatim>\<open>stop()\<close> never changes \<^verbatim>\<open>currentIndex\<close>; and in every
  state the worker can reach from an empty timeout table no timeout is pending after it.
\<close>

theorem stop_is_idempotent:
  "(\<not> isRunning (SchedulerInstance w) \<and> timer (SchedulerInstance w) = None \<longrightarrow> stop w = w)
   \<and> stop (stop w) = stop w
   \<and> \<not> isRunning (SchedulerInstance (stop w))
   \<and> timer (SchedulerInstance (stop w)) = None
   \<and> currentIndex (SchedulerInstance (stop w)) = currentIndex (SchedulerInstance w)
   \<and> (timeouts w0 = [] \<longrightarrow> timeouts (stop (stop (run evs w0))) = [])"
proof -
  have "timeouts (stop (stop (run evs w0))) = []" if "timeouts w0 = []"
    using single_slot_stop[OF single_slot_run[OF single_slot_empty[OF that]], of evs]
    by (simp add: stop_stop)
  then show ?thesis
    by (simp add: stop_stop stop_fields stop_stopped)
qed

text \<open>
  Witness for C8: the freshly loaded worker is stopped, and a started one is stopped twice.
\<close>

theorem stop_is_idempotent_witness:
  "stop boot = boot
   \<and> stop (stop (snd (start 0 0 0 boot))) = stop (snd (start 0 0 0 boot))
   \<and> timeouts (stop (stop (run [Message \<lparr>action = start_action, index = Some 0\<rparr> 0 0] boot))) = []"
proof -
  have i: "\<not> isRunning (SchedulerInstance boot) \<and> timer (SchedulerInstance boot) = None"
    by (simp add: boot_def newBackgroundScheduler_def)
  have e: "timeouts boot = []" by (simp add: boot_def)
  from stop_is_idempotent[of boot boot "[Message \<lparr>action = start_action, index = Some 0\<rparr> 0 0]"]
       stop_is_idempotent[of "snd (start 0 0 0 boot)" boot "[]"] i e
  show ?thesis by blast
qed

section \<open>Properties of the sound system\<close>

subsection \<open>Auxiliary facts\<close>

lemma onmessage_persists:
  "msg_currentIndex e = Some i \<Longrightarrow>
   sessionStorage (snd (audioWorker_onmessage e now p)) ''ambient_melody_index'' = Some i"
  by (cases e) (simp_all add: audioWorker_onmessage_def Let_def split: option.splits)

lemma onmessage_part_001_persists:
  "msg_currentIndex e = Some i \<Longrightarrow>
   sessionStorage (snd (audioWorker_onmessage_part_001 e p)) ''ambient_melody_index'' = Some i"
  by (cases e) (simp_all add: audioWorker_onmessage_part_001_def Let_def split: option.splits)

lemma stale_note_dropped:
  assumes "ts \<noteq> 0" and "now - ts > 150" and "audioCtx p = Some ctx"
  shows "audioWorker_onmessage (play_note n d pr ts i) now p =
     (None, p\<lparr>sessionStorage := (sessionStorage p)(''ambient_melody_index'' \<mapsto> i),
              console := console p @
                [''Dropping stale background note to maintain website smoothness'']\<rparr>)"
  using assms by (simp add: audioWorker_onmessage_def Let_def)

lemma fresh_note_played:
  assumes "\<not> (ts \<noteq> 0 \<and> now - ts > 150)" and "audioCtx p = Some ctx" and "ambientGain p = Some g"
  shows "audioWorker_onmessage (play_note n d pr ts i) now p =
     (None, p\<lparr>sessionStorage := (sessionStorage p)(''ambient_melody_index'' \<mapsto> i),
              audioCtx := Some (ctx\<lparr>voices := voices ctx
                                  @ ambient_note_voices n d pr (currentTime ctx + 0.05)\<rparr>)\<rparr>)"
  using assms by (auto simp add: audioWorker_onmessage_def Let_def)

lemma part_001_note_played:
  assumes "audioCtx p = Some ctx" and "ambientGain p = Some g"
  shows "audioWorker_onmessage_part_001 (play_note n d pr ts i) p =
     (None, p\<lparr>sessionStorage := (sessionStorage p)(''ambient_melody_index'' \<mapsto> i),
              audioCtx := Some (ctx\<lparr>voices := voices ctx
                                  @ ambient_note_voices_part_001 n d pr (currentTime ctx + 0.05)\<rparr>)\<rparr>)"
  using assms by (auto simp add: audioWorker_onmessage_part_001_def Let_def)

lemma ambient_page_eval:
  "audioCtx ambient_page = Some \<lparr>suspended = True, currentTime = 0, voices = [drone1, drone2],
                                 resume_calls = 1\<rparr>"
  "ambientGain ambient_page = Some \<lparr>gain_value = 0, gain_events =
      [cancelScheduledValues 0, setValueAtTime 0 0, linearRampToValueAtTime 0.65 0.5]\<rparr>"
  by (simp_all add: ambient_page_def loaded_page_def startAmbient_def initContext_def
      resume_if_suspended_def add_voice_def Let_def)

lemma stopAmbient_audioCtx: "audioCtx (stopAmbient p) = audioCtx p"
  by (simp add: stopAmbient_def Let_def split: option.splits)

lemma page_voices_stopAmbient: "page_voices (stopAmbient p) = page_voices p"
  by (simp add: page_voices_def stopAmbient_audioCtx)

lemma initContext_fails:
  "audioCtx p = None \<Longrightarrow> \<not> AudioContext_ctor p \<Longrightarrow> initContext p = (Some TypeError, p)"
  by (simp add: initContext_def)

lemma initContext_succeeds:
  "can_start p \<Longrightarrow>
   \<exists>p1 ctx g. initContext p = (None, p1) \<and> audioCtx p1 = Some ctx \<and> ambientGain p1 = Some g
      \<and> \<not> ambientStarted p1 \<and> voices ctx = page_voices p"
  by (auto simp: can_start_def initContext_def resume_if_suspended_def page_voices_def
           split: option.splits)

lemma startAmbient_adds_drones:
  assumes "can_start p"
  shows "fst (startAmbient p) = None
       \<and> page_voices (snd (startAmbient p)) = page_voices p @ [drone1, drone2]
       \<and> audioCtx (snd (startAmbient p)) \<noteq> None
       \<and> ambientGain (snd (startAmbient p)) \<noteq> None"
proof -
  from initContext_succeeds[OF assms] obtain p1 ctx g where
    i: "initContext p = (None, p1)" and c: "audioCtx p1 = Some ctx" and g: "ambientGain p1 = Some g"
    and s: "\<not> ambientStarted p1" and v: "voices ctx = page_voices p"
    by blast
  show ?thesis
    by (cases "Worker_ctor p1")
       (simp_all add: startAmbient_def i c g s v Let_def add_voice_def page_voices_def
          setupLegacyInterval_def)
qed

lemma stopAmbient_can_start:
  "audioCtx p \<noteq> None \<Longrightarrow> ambientGain p \<noteq> None \<Longrightarrow> can_start (stopAmbient p)"
  by (auto simp: can_start_def stopAmbient_def Let_def split: option.splits)

lemma drones_never_stop: "v_stop drone1 = None" "v_stop drone2 = None"
  by (simp_all add: drone1_def drone2_def)

lemma ambient_cycle:
  assumes "can_start p"
  shows "can_start (stopAmbient (snd (startAmbient p)))
       \<and> unstopped (stopAmbient (snd (startAmbient p))) = unstopped p @ [drone1, drone2]"
  using startAmbient_adds_drones[OF assms]
  by (simp add: stopAmbient_can_start unstopped_def page_voices_stopAmbient drones_never_stop)

lemma ambient_cycles_unstopped:
  "can_start p \<Longrightarrow>
   unstopped (ambient_cycles n p) = unstopped p @ concat (replicate n [drone1, drone2])"
  by (induction n arbitrary: p) (simp_all add: ambient_cycle)

subsection \<open>Stale notes\<close>

text \<open>
  Claim C6, as the code has it. With the audio graph in place: in src/sound.js a
  \<^verbatim>\<open>play_note\<close> event whose timestamp is not 0 and which arrives more than 150 ms after
  that timestamp is dropped (the handler does not throw and the audio context is left as
  it was); every other \<^verbatim>\<open>play_note\<close> event, in particular every one whose timestamp is 0,
  is synthesized as two oscillators. In the copy of the file with the check commented out
  (src/unnamed/part\_001) every \<^verbatim>\<open>play_note\<close> event is synthesized, whatever its age.
\<close>

theorem staleness_check_is_a_variant_knob:
  assumes "audioCtx p = Some ctx" and "ambientGain p = Some g"
  shows "(ts \<noteq> 0 \<and> now - ts > 150 \<longrightarrow>
            fst (audioWorker_onmessage (play_note n d pr ts i) now p) = None
          \<and> audioCtx (snd (audioWorker_onmessage (play_note n d pr ts i) now p)) = Some ctx)
       \<and> (ts = 0 \<or> now - ts \<le> 150 \<longrightarrow>
            audioCtx (snd (audioWorker_onmessage (play_note n d pr ts i) now p))
              = Some (ctx\<lparr>voices := voices ctx @ ambient_note_voices n d pr (currentTime ctx + 0.05)\<rparr>))
       \<and> audioCtx (snd (audioWorker_onmessage_part_001 (play_note n d pr ts i) p))
            = Some (ctx\<lparr>voices := voices ctx
                        @ ambient_note_voices_part_001 n d pr (currentTime ctx + 0.05)\<rparr>)
       \<and> length (ambient_note_voices n d pr (currentTime ctx + 0.05)) = 2
       \<and> length (ambient_note_voices_part_001 n d pr (currentTime ctx + 0.05)) = 2"
proof -
  have stale: "fst (audioWorker_onmessage (play_note n d pr ts i) now p) = None
          \<and> audioCtx (snd (audioWorker_onmessage (play_note n d pr ts i) now p)) = Some ctx"
    if "ts \<noteq> 0 \<and> now - ts > 150"
    using that assms(1) by (simp add: stale_note_dropped[of ts now p ctx])
  have fresh: "audioCtx (snd (audioWorker_onmessage (play_note n d pr ts i) now p))
              = Some (ctx\<lparr>voices := voices ctx @ ambient_note_voices n d pr (currentTime ctx + 0.05)\<rparr>)"
    if "ts = 0 \<or> now - ts \<le> 150"
  proof -
    from that have "\<not> (ts \<noteq> 0 \<and> now - ts > 150)" by auto
    from fresh_note_played[OF this assms] show ?thesis by simp
  qed
  have other: "audioCtx (snd (audioWorker_onmessage_part_001 (play_note n d pr ts i) p))
            = Some (ctx\<lparr>voices := voices ctx
                        @ ambient_note_voices_part_001 n d pr (currentTime ctx + 0.05)\<rparr>)"
    by (simp add: part_001_note_played[OF assms])
  have len: "length (ambient_note_voices n d pr (currentTime ctx + 0.05)) = 2"
    "length (ambient_note_voices_part_001 n d pr (currentTime ctx + 0.05)) = 2"
    by (simp_all add: ambient_note_voices_def ambient_note_voices_part_001_def Let_def)
  from stale fresh other len show ?thesis by blast
qed

text \<open>
  Witness for C6: on the page with the ambient layer started, an event stamped 10 that
  arrives at 200 is dropped by src/sound.js and played by the other copy; one that arrives
  at 100 is played by both.
\<close>

theorem staleness_check_is_a_variant_knob_witness:
  "page_voices (snd (audioWorker_onmessage (play_note 440 1000 1 10 0) 200 ambient_page))
     = [drone1, drone2]
   \<and> page_voices (snd (audioWorker_onmessage (play_note 440 1000 1 10 0) 100 ambient_page))
     = [drone1, drone2] @ ambient_note_voices 440 1000 1 0.05
   \<and> page_voices (snd (audioWorker_onmessage_part_001 (play_note 440 1000 1 10 0) ambient_page))
     = [drone1, drone2] @ ambient_note_voices_part_001 440 1000 1 0.05"
proof -
  note a = ambient_page_eval
  from staleness_check_is_a_variant_knob[OF a, of 10 200 440 1000 1 0]
       staleness_check_is_a_variant_knob[OF a, of 10 100 440 1000 1 0]
  show ?thesis by (simp add: page_voices_def)
qed

text \<open>
  Counterexample to C6 as stated: src/sound.js runs the check only for a truthy timestamp.
  A \<^verbatim>\<open>play_note\<close> event stamped 0 that the page receives at 200, more than 150 ms after
  its timestamp, is not dropped: its two oscillators are added after the drones.
\<close>

theorem staleness_check_is_a_variant_knob_counterexample:
  "(200 :: real) - 0 > 150
   \<and> page_voices (snd (audioWorker_onmessage (play_note 440 1000 1 0 0) 200 ambient_page))
       = [drone1, drone2] @ ambient_note_voices 440 1000 1 0.05
   \<and> page_voices (snd (audioWorker_onmessage (play_note 440 1000 1 0 0) 200 ambient_page))
       \<noteq> page_voices ambient_page"
  by (simp add: audioWorker_onmessage_def ambient_page_eval page_voices_def Let_def
      ambient_note_voices_def)

subsection \<open>Persisting the position\<close>

text \<open>
  Claim C7. Whenever an event carries a \<^verbatim>\<open>currentIndex\<close>, \<^verbatim>\<open>play_note\<close> and \<^verbatim>\<open>sync_state\<close>
  alike, the handler (in either copy of the file) leaves that index in
  \<^verbatim>\<open>sessionStorage\<close> under \<^verbatim>\<open>ambient_melody_index\<close>. This includes the \<^verbatim>\<open>play_note\<close> events
  the staleness check of src/sound.js drops: the index is stored, the audio context is
  untouched.
\<close>

theorem index_persisted_on_every_event:
  assumes "msg_currentIndex e = Some i"
  shows "sessionStorage (snd (audioWorker_onmessage e now p)) ''ambient_melody_index'' = Some i
       \<and> sessionStorage (snd (audioWorker_onmessage_part_001 e p)) ''ambient_melody_index'' = Some i
       \<and> (ts \<noteq> 0 \<and> now - ts > 150 \<and> audioCtx p \<noteq> None \<longrightarrow>
            sessionStorage (snd (audioWorker_onmessage (play_note n d pr ts j) now p))
              ''ambient_melody_index'' = Some j
          \<and> audioCtx (snd (audioWorker_onmessage (play_note n d pr ts j) now p)) = audioCtx p)"
proof -
  have "sessionStorage (snd (audioWorker_onmessage (play_note n d pr ts j) now p))
              ''ambient_melody_index'' = Some j
          \<and> audioCtx (snd (audioWorker_onmessage (play_note n d pr ts j) now p)) = audioCtx p"
    if "ts \<noteq> 0 \<and> now - ts > 150 \<and> audioCtx p \<noteq> None"
  proof -
    from that obtain ctx where "audioCtx p = Some ctx" by auto
    with that show ?thesis by (simp add: stale_note_dropped[of ts now p ctx])
  qed
  with assms show ?thesis
    by (simp add: onmessage_persists onmessage_part_001_persists)
qed

text \<open>
  Witness for C7: a rest event, and a stale note event that is dropped.
\<close>

theorem index_persisted_on_every_event_witness:
  "sessionStorage (snd (audioWorker_onmessage (sync_state 5) 200 ambient_page))
     ''ambient_melody_index'' = Some 5
   \<and> sessionStorage (snd (audioWorker_onmessage_part_001 (sync_state 5) ambient_page))
     ''ambient_melody_index'' = Some 5
   \<and> sessionStorage (snd (audioWorker_onmessage (play_note 440 1000 1 10 7) 200 ambient_page))
     ''ambient_melody_index'' = Some 7
   \<and> audioCtx (snd (audioWorker_onmessage (play_note 440 1000 1 10 7) 200 ambient_page))
     = audioCtx ambient_page"
proof -
  have m: "msg_currentIndex (sync_state 5) = Some 5" by simp
  have s: "(10 :: real) \<noteq> 0 \<and> (200 :: real) - 10 > 150 \<and> audioCtx ambient_page \<noteq> None"
    by (simp add: ambient_page_eval)
  from index_persisted_on_every_event[OF m, where now = 200 and p = ambient_page and ts = 10
         and n = 440 and d = 1000 and pr = 1 and j = 7] s
  show ?thesis by blast
qed

subsection \<open>Sounds without an audio graph\<close>

text \<open>
  Claim C9, as the code has it. \<^verbatim>\<open>play\<close> never throws, whatever the sound name and the
  options. \<^verbatim>\<open>createTone\<close> does nothing when there is no audio context, no destination or
  the duration is not positive, and otherwise adds its oscillator; \<^verbatim>\<open>createNote\<close> does
  nothing without context or destination, and otherwise adds its oscillator whatever the
  duration. When there is no audio context and none can be constructed, \<^verbatim>\<open>play\<close> leaves
  the page without context and without any oscillator. When there is no audio context but
  one can be constructed, \<^verbatim>\<open>play\<close> builds the graph itself: \<^verbatim>\<open>play('click')\<close> leaves a
  context, in the state the browser starts it in, with the two oscillators of the click
  scheduled at time 0.
\<close>

theorem sound_without_audio_graph:
  "fst (play ty options p) = None
   \<and> (audioCtx p = None \<or> destination = None \<or> dur \<le> 0 \<longrightarrow>
        createTone f w t dur vol destination p = p)
   \<and> (audioCtx p = Some ctx \<and> 0 < dur \<longrightarrow>
        page_voices (createTone f w t dur vol (Some dest) p)
          = voices ctx @ [\<lparr>v_wave = w, v_frequency = f, v_start = t, v_stop = Some (t + dur),
                            v_peak = clamp vol SAFE_MIN_VOLUME 1, v_dest = dest\<rparr>])
   \<and> (audioCtx p = None \<or> destination = None \<longrightarrow> createNote f t dur vol destination p = p)
   \<and> (audioCtx p = Some ctx \<longrightarrow>
        page_voices (createNote f t dur vol (Some dest) p)
          = voices ctx @ [\<lparr>v_wave = triangle, v_frequency = f, v_start = t,
                            v_stop = Some (t + dur + 0.02),
                            v_peak = clamp vol SAFE_MIN_VOLUME 1, v_dest = dest\<rparr>])
   \<and> (audioCtx p = None \<and> \<not> AudioContext_ctor p \<longrightarrow>
        audioCtx (snd (play ty options p)) = None \<and> page_voices (snd (play ty options p)) = [])
   \<and> (audioCtx p = None \<and> AudioContext_ctor p \<longrightarrow>
        audioCtx (snd (play ''click'' opts_undefined p))
          = Some \<lparr>suspended = new_ctx_suspended p, currentTime = 0, voices = click_voices 0,
                  resume_calls = (if new_ctx_suspended p then 2 else 0)\<rparr>)"
proof -
  have caught: "fst (play ty options p) = None"
    by (simp add: play_def split: prod.splits option.splits)
  have tone: "createTone f w t dur vol destination p = p"
    if "audioCtx p = None \<or> destination = None \<or> dur \<le> 0"
    using that by (auto simp: createTone_def split: option.splits)
  have tone': "page_voices (createTone f w t dur vol (Some dest) p)
          = voices ctx @ [\<lparr>v_wave = w, v_frequency = f, v_start = t, v_stop = Some (t + dur),
                            v_peak = clamp vol SAFE_MIN_VOLUME 1, v_dest = dest\<rparr>]"
    if "audioCtx p = Some ctx \<and> 0 < dur"
    using that by (simp add: createTone_def page_voices_def add_voice_def)
  have nt: "createNote f t dur vol destination p = p"
    if "audioCtx p = None \<or> destination = None"
    using that by (auto simp: createNote_def split: option.splits)
  have nt': "page_voices (createNote f t dur vol (Some dest) p)
          = voices ctx @ [\<lparr>v_wave = triangle, v_frequency = f, v_start = t,
                            v_stop = Some (t + dur + 0.02),
                            v_peak = clamp vol SAFE_MIN_VOLUME 1, v_dest = dest\<rparr>]"
    if "audioCtx p = Some ctx"
    using that by (simp add: createNote_def page_voices_def add_voice_def)
  have silent: "audioCtx (snd (play ty options p)) = None \<and> page_voices (snd (play ty options p)) = []"
    if "audioCtx p = None \<and> \<not> AudioContext_ctor p"
    using that by (simp add: play_def play_try_def initContext_fails page_voices_def)
  have built: "audioCtx (snd (play ''click'' opts_undefined p))
          = Some \<lparr>suspended = new_ctx_suspended p, currentTime = 0, voices = click_voices 0,
                  resume_calls = (if new_ctx_suspended p then 2 else 0)\<rparr>"
    if "audioCtx p = None \<and> AudioContext_ctor p"
    using that
    by (simp add: play_def play_try_def sounds_def sounds_click_def intensity_of_def
        with_now_def initContext_def resume_if_suspended_def master_tone_def createTone_def
        bus_of_def add_voice_def clamp_def SAFE_MIN_VOLUME_def click_voices_def Let_def)
  from caught tone tone' nt nt' silent built show ?thesis by blast
qed

text \<open>
  Witness for C9: \<^verbatim>\<open>createTone\<close> and \<^verbatim>\<open>createNote\<close> before the graph exists and on the page
  with the ambient layer started, \<^verbatim>\<open>play('click')\<close> on a page whose browser has no
  \<^verbatim>\<open>AudioContext\<close>, and \<^verbatim>\<open>play('click')\<close> on the freshly loaded page.
\<close>

theorem sound_without_audio_graph_witness:
  "createTone 440 sine 0 1 0.1 (Some master_bus) loaded_page = loaded_page
   \<and> createNote 440 0 1 0.1 (Some master_bus) loaded_page = loaded_page
   \<and> length (page_voices (createTone 440 sine 0 1 0.1 (Some master_bus) ambient_page)) = 3
   \<and> length (page_voices (createNote 440 0 1 0.1 (Some master_bus) ambient_page)) = 3
   \<and> fst (play ''click'' opts_undefined silent_page) = None
   \<and> page_voices (snd (play ''click'' opts_undefined silent_page)) = []
   \<and> page_voices (snd (play ''click'' opts_undefined loaded_page)) = click_voices 0"
proof -
  have n: "audioCtx loaded_page = None \<and> AudioContext_ctor loaded_page"
    by (simp add: loaded_page_def)
  have s: "audioCtx silent_page = None \<and> \<not> AudioContext_ctor silent_page"
    by (simp add: silent_page_def loaded_page_def)
  have d: "(0::real) < 1" by simp
  from sound_without_audio_graph[where p = loaded_page and destination = "Some master_bus"
         and dur = 1 and f = 440 and w = sine and t = 0 and vol = "0.1"]
       sound_without_audio_graph[where p = ambient_page and dest = master_bus
         and dur = 1 and f = 440 and w = sine and t = 0 and vol = "0.1"
         and ctx = "\<lparr>suspended = True, currentTime = 0, voices = [drone1, drone2],
                     resume_calls = 1\<rparr>"]
       sound_without_audio_graph[where p = silent_page and ty = "''click''"
         and options = opts_undefined]
       n s d ambient_page_eval(1)
  show ?thesis by (simp add: page_voices_def)
qed

text \<open>
  Counterexample to C9 as stated: on a freshly loaded page, with no audio graph yet, in a
  browser that lets a new context run, \<^verbatim>\<open>play('click')\<close> is not a silent no-op: it builds
  the graph and leaves a running context with the two oscillators of the click. And
  \<^verbatim>\<open>createNote\<close> with duration 0 is not a no-op either: on the page with the ambient layer
  started it adds a third oscillator.
\<close>

theorem sound_without_audio_graph_counterexample:
  "audioCtx autoplay_page = None
   \<and> audioCtx (snd (play ''click'' opts_undefined autoplay_page))
       = Some \<lparr>suspended = False, currentTime = 0, voices = click_voices 0, resume_calls = 0\<rparr>
   \<and> length (click_voices 0) = 2
   \<and> page_voices (createNote 440 0 0 0.07 (Some master_bus) ambient_page)
       = [drone1, drone2,
          \<lparr>v_wave = triangle, v_frequency = 440, v_start = 0, v_stop = Some 0.02,
           v_peak = 0.07, v_dest = master_bus\<rparr>]"
  by (simp add: autoplay_page_def loaded_page_def play_def play_try_def sounds_def
      sounds_click_def intensity_of_def with_now_def initContext_def resume_if_suspended_def
      master_tone_def createTone_def createNote_def bus_of_def add_voice_def clamp_def
      SAFE_MIN_VOLUME_def click_voices_def page_voices_def ambient_page_eval Let_def)

subsection \<open>The drones outlive the ambient layer\<close>

text \<open>
  Claim C10. \<^verbatim>\<open>stopAmbient\<close> leaves the audio context, and with it every oscillator and
  its stop time, exactly as it was. What it does: it posts \<^verbatim>\<open>stop\<close> to the worker and
  terminates it, clears the fallback interval, appends the ramp of the ambient gain to 0
  at \<open>currentTime + 0.5\<close>, and resets \<^verbatim>\<open>ambientStarted\<close>. A \<^verbatim>\<open>startAmbient\<close> that gets past
  its guard adds the two drone oscillators, on which no stop is scheduled; so after \<open>n\<close>
  cycles of \<^verbatim>\<open>startAmbient\<close> and \<^verbatim>\<open>stopAmbient\<close> the page has \<open>n\<close> more pairs of oscillators
  that never stop.
\<close>

theorem drones_accumulate_over_cycles:
  assumes "can_start p"
  shows "audioCtx (stopAmbient q) = audioCtx q
       \<and> unstopped (stopAmbient q) = unstopped q
       \<and> \<not> ambientStarted (stopAmbient q)
       \<and> audioWorker (stopAmbient q) = None
       \<and> ambientTimer (stopAmbient q) = None
       \<and> (audioWorker q = Some k \<and> k < length (workers q) \<longrightarrow>
            terminated (workers (stopAmbient q) ! k))
       \<and> (ambientTimer q = Some h \<longrightarrow> h \<notin> fst ` set (intervals (stopAmbient q)))
       \<and> (audioCtx q = Some ctx \<and> ambientGain q = Some g \<longrightarrow>
            ambientGain (stopAmbient q)
              = Some (g\<lparr>gain_events := gain_events g @
                         [cancelScheduledValues (currentTime ctx),
                          setValueAtTime (gain_value g) (currentTime ctx),
                          linearRampToValueAtTime 0 (currentTime ctx + 0.5)]\<rparr>))
       \<and> page_voices (snd (startAmbient p)) = page_voices p @ [drone1, drone2]
       \<and> v_stop drone1 = None \<and> v_stop drone2 = None
       \<and> unstopped (ambient_cycles n p) = unstopped p @ concat (replicate n [drone1, drone2])"
proof -
  have frame: "audioCtx (stopAmbient q) = audioCtx q \<and> unstopped (stopAmbient q) = unstopped q"
    by (simp add: stopAmbient_audioCtx unstopped_def page_voices_stopAmbient)
  have flags: "\<not> ambientStarted (stopAmbient q) \<and> audioWorker (stopAmbient q) = None
       \<and> ambientTimer (stopAmbient q) = None"
    by (simp add: stopAmbient_def Let_def split: option.splits)
  have gone: "terminated (workers (stopAmbient q) ! k)"
    if "audioWorker q = Some k \<and> k < length (workers q)"
    using that by (simp add: stopAmbient_def Let_def split: option.splits)
  have clear: "h \<notin> fst ` set (intervals (stopAmbient q))" if "ambientTimer q = Some h"
    using that by (auto simp: stopAmbient_def Let_def split: option.splits)
  have ramp: "ambientGain (stopAmbient q)
              = Some (g\<lparr>gain_events := gain_events g @
                         [cancelScheduledValues (currentTime ctx),
                          setValueAtTime (gain_value g) (currentTime ctx),
                          linearRampToValueAtTime 0 (currentTime ctx + 0.5)]\<rparr>)"
    if "audioCtx q = Some ctx \<and> ambientGain q = Some g"
    using that by (simp add: stopAmbient_def Let_def split: option.splits)
  have again: "page_voices (snd (startAmbient p)) = page_voices p @ [drone1, drone2]"
    using startAmbient_adds_drones[OF assms] by simp
  have acc: "unstopped (ambient_cycles n p) = unstopped p @ concat (replicate n [drone1, drone2])"
    using assms by (rule ambient_cycles_unstopped)
  from frame flags gone clear ramp again acc drones_never_stop show ?thesis by blast
qed

text \<open>
  Witness for C10: a page whose ambient layer runs on a worker, one that runs on the
  fallback interval, and two start/stop cycles from the freshly loaded page.
\<close>

theorem drones_accumulate_over_cycles_witness:
  "can_start loaded_page
   \<and> unstopped (stopAmbient ambient_page) = [drone1, drone2]
   \<and> terminated (workers (stopAmbient ambient_page) ! 0)
   \<and> 1 \<notin> fst ` set (intervals (stopAmbient (snd (startAmbient (loaded_page\<lparr>Worker_ctor := no_Worker\<rparr>)))))
   \<and> unstopped (ambient_cycles 2 loaded_page) = [drone1, drone2, drone1, drone2]"
proof -
  have c: "can_start loaded_page" by (simp add: can_start_def loaded_page_def)
  have w: "audioWorker ambient_page = Some 0 \<and> 0 < length (workers ambient_page)"
    by (simp add: ambient_page_def loaded_page_def startAmbient_def initContext_def
        resume_if_suspended_def add_voice_def Let_def)
  have t: "ambientTimer (snd (startAmbient (loaded_page\<lparr>Worker_ctor := no_Worker\<rparr>))) = Some 1"
    by (simp add: loaded_page_def startAmbient_def initContext_def
        resume_if_suspended_def add_voice_def setupLegacyInterval_def Let_def)
  have u: "unstopped ambient_page = [drone1, drone2]" "unstopped loaded_page = []"
    by (simp_all add: unstopped_def page_voices_def ambient_page_eval drones_never_stop loaded_page_def)
  have r: "concat (replicate 2 [drone1, drone2]) = [drone1, drone2, drone1, drone2]"
    by (simp add: numeral_2_eq_2)
  from drones_accumulate_over_cycles[OF c, where q = ambient_page and k = 0 and n = 2]
       drones_accumulate_over_cycles[OF c,
         where q = "snd (startAmbient (loaded_page\<lparr>Worker_ctor := no_Worker\<rparr>))" and h = 1]
       c w t u r
  show ?thesis by simp
qed

end
